theory Spec2Isabelle
  imports Main "HOL-Library.AList"
begin

section \<open>The file catalogue of \<open>lofasm/data_file_info/data_file_info.py\<close>\<close>

text \<open>
  The module has one class, \<open>LofasmFileInfo\<close>. Its constructor lists a directory, sorts
  the entries into categories (\<open>check_file_format\<close>), and builds or updates a table with
  one row per data file (\<open>setup_info_table\<close>, \<open>add_columns\<close>); \<open>write_info_table\<close>
  stores the table. The operating system, the format classes, the column collectors and
  the astropy table are collaborators of the module: they are parameters of the model.

  Conventions of the embedding.
  \<^item> A Python \<open>dict\<close> is an association list with distinct keys, in insertion order;
    \<open>AList.update\<close> is \<open>d[k] = v\<close> and \<open>AList.map_entry\<close> changes the value of a key
    that is present.
  \<^item> A raised exception is a value \<open>Inl e\<close>; everything the code does before the raise
    stays in the event log that is returned beside the result.
  \<^item> The manager works on one directory, so a file is named by its entry name:
    \<open>os.path.join(directory, fn)\<close> is \<open>fn\<close>.
\<close>

subsection \<open>Data\<close>

datatype exn =
  KeyError string          \<comment> \<open>a \<open>dict\<close> or table lookup of a missing key\<close>
  | TypeError              \<comment> \<open>a path built from a null cell\<close>
  | NotImplementedError    \<comment> \<open>the signal a collector gives for a format it does not cover\<close>
  | Raised string          \<comment> \<open>any other exception of a collaborator, by name\<close>

text \<open>A cell of the table holds a string or is null (\<open>None\<close>).\<close>

type_synonym cell = "string option"

datatype meta_val = MStr string | MBool bool

text \<open>An astropy table: its columns in order, each with one cell per row, and \<open>meta\<close>.\<close>

record table =
  columns :: "(string \<times> cell list) list"
  meta :: "(string \<times> meta_val) list"

text \<open>What the code can see of an opened file object is the file it was opened on.\<close>

type_synonym handle = string

text \<open>An instance of a \<open>DataFormat\<close> class.\<close>

record format_cls =
  is_format :: "string \<Rightarrow> bool"
  instantiate_format_cls :: "string \<Rightarrow> exn + handle"

text \<open>An instance of an \<open>InfoCollector\<close> class: its \<open>collect_method\<close> dict, from the format
  name to the method that reads one value from an opened file.\<close>

type_synonym collector = "string \<rightharpoonup> (handle \<Rightarrow> exn + cell)"

text \<open>The directory as the module sees it.\<close>

record filesystem =
  listdir :: "string list"                 \<comment> \<open>\<open>os.listdir(directory)\<close>\<close>
  isdir :: "string \<Rightarrow> bool"                \<comment> \<open>\<open>os.path.isdir\<close> of an entry\<close>
  isfile :: "string \<Rightarrow> bool"               \<comment> \<open>\<open>os.path.isfile\<close> of an entry\<close>
  sub_listdir :: "string \<Rightarrow> string list"   \<comment> \<open>\<open>os.listdir\<close> of a subdirectory\<close>
  read_table :: "string \<Rightarrow> exn + table"    \<comment> \<open>\<open>Table.read(path, format='ascii.ecsv')\<close>\<close>

text \<open>The collaborators that do not belong to the directory: the two class registries,
  \<open>self.formats\<close> (the instances made from \<open>DataFormat._format_list\<close>) and
  \<open>InfoCollector._info_name_list\<close>, and the check of astropy's \<open>table.vstack\<close>. The
  cells of the model carry no type, the columns of astropy do, and \<open>vstack\<close> raises
  \<open>TableMergeError\<close> when a column of the two tables has types that do not merge (a
  column of strings and one that holds \<open>None\<close>, say): \<open>merge_error t1 t2\<close> is the exception
  that \<open>vstack([t1, t2])\<close> raises, if it raises one.\<close>

record registry =
  formats :: "(string \<times> format_cls) list"
  info_name_list :: "(string \<times> collector) list"
  merge_error :: "table \<Rightarrow> table \<Rightarrow> exn option"

datatype event =
  Warn string      \<comment> \<open>\<open>log.warn\<close>, with the name it is about\<close>
  | Open string    \<comment> \<open>\<open>instantiate_format_cls(f)\<close> returned a file object\<close>
  | Close string   \<comment> \<open>\<open>f_obj.close()\<close>\<close>

text \<open>The fields of a \<open>LofasmFileInfo\<close> object.\<close>

record manager =
  files :: "(string \<times> string list) list"
  info_file_name :: string
  new_files :: "string list"
  table_update :: bool
  col_names :: "string list"
  info_table :: table

subsection \<open>Python helpers\<close>

definition endswith :: "string \<Rightarrow> string \<Rightarrow> bool" where
  "endswith s suf = (drop (length s - length suf) s = suf)"

text \<open>\<open>dict(pairs)\<close>: a later pair with the same key replaces the value.\<close>

definition dict :: "('k \<times> 'v) list \<Rightarrow> ('k \<times> 'v) list" where
  "dict kvs = fold (\<lambda>(k, v) d. AList.update k v d) kvs []"

text \<open>\<open>d[k].append(x)\<close> for a key that is present.\<close>

definition dict_append :: "string \<Rightarrow> 'a \<Rightarrow> (string \<times> 'a list) list \<Rightarrow> (string \<times> 'a list) list" where
  "dict_append k x d = AList.map_entry k (\<lambda>l. l @ [x]) d"

text \<open>\<open>d[k]\<close> for a key the code has put there.\<close>

definition dict_get :: "(string \<times> 'a list) list \<Rightarrow> string \<Rightarrow> 'a list" where
  "dict_get d k = (case map_of d k of Some l \<Rightarrow> l | None \<Rightarrow> [])"

subsection \<open>\<open>check_file_format\<close>\<close>

text \<open>The inner loop over the formats, for one entry that is not a directory: every
  format met gets its key, and the first format that recognises the file takes it.\<close>

fun classify :: "(string \<times> format_cls) list \<Rightarrow> string \<Rightarrow>
    (string \<times> string list) list \<Rightarrow> (string \<times> string list) list" where
  "classify [] fn file_format = file_format"
| "classify ((k, kc) # rest) fn file_format =
     (let ff = (if k \<notin> set (map fst file_format) then AList.update k [] file_format
                else file_format)
      in if is_format kc fn then dict_append k fn ff else classify rest fn ff)"

text \<open>The loop over the entries. The test for the suffix is an \<open>if\<close> of its own: the
  entry goes on to the test for a directory and to the formats.\<close>

fun check_loop :: "filesystem \<Rightarrow> (string \<times> format_cls) list \<Rightarrow> string list \<Rightarrow>
    (string \<times> string list) list \<Rightarrow> (string \<times> string list) list" where
  "check_loop fs fmts [] file_format = file_format"
| "check_loop fs fmts (fn # rest) file_format =
     (let ff1 = (if endswith fn ''.info'' then dict_append ''info'' fn file_format
                 else file_format);
          ff2 = (if isdir fs fn then dict_append ''data_dir'' fn ff1
                 else classify fmts fn ff1)
      in check_loop fs fmts rest ff2)"

definition check_file_format :: "filesystem \<Rightarrow> registry \<Rightarrow> string list \<Rightarrow>
    (string \<times> string list) list" where
  "check_file_format fs reg fnames =
     check_loop fs (formats reg) fnames [(''data_dir'', []), (''info'', [])]"

subsection \<open>\<open>get_format_map\<close>\<close>

definition get_format_map :: "(string \<times> string list) list \<Rightarrow> (string \<times> string) list" where
  "get_format_map fls =
     (let kept = filter (\<lambda>(tp, flist). tp \<noteq> ''info'') fls;
          data_files = concat (map snd kept);
          file_formats = concat (map (\<lambda>(tp, flist). replicate (length flist) tp) kept)
      in dict (zip data_files file_formats))"

subsection \<open>\<open>get_col_collector\<close>\<close>

fun get_col_collector :: "registry \<Rightarrow> string list \<Rightarrow> (string \<times> collector) list \<Rightarrow>
    (string \<times> collector) list" where
  "get_col_collector reg [] ccs = ccs"
| "get_col_collector reg (coln # cols) ccs =
     (case map_of (info_name_list reg) coln of
        Some c \<Rightarrow> get_col_collector reg cols (AList.update coln c ccs)
      | None \<Rightarrow> get_col_collector reg cols ccs)"

subsection \<open>\<open>add_columns\<close>\<close>

text \<open>The first loop: the requested columns that will be computed, and a warning for each
  one that the table already has while \<open>overwrite\<close> is off.\<close>

definition col_info_keys :: "(string \<times> collector) list \<Rightarrow> table \<Rightarrow> bool \<Rightarrow> string list" where
  "col_info_keys col_collectors t overwrite =
     filter (\<lambda>cn. \<not> (cn \<in> set (map fst (columns t)) \<and> \<not> overwrite)) (map fst col_collectors)"

definition col_warnings :: "(string \<times> collector) list \<Rightarrow> table \<Rightarrow> bool \<Rightarrow> event list" where
  "col_warnings col_collectors t overwrite =
     map Warn (filter (\<lambda>cn. cn \<in> set (map fst (columns t)) \<and> \<not> overwrite)
       (map fst col_collectors))"

text \<open>\<open>col_collectors[k].collect_method[fmt](f_obj)\<close>, before the \<open>except\<close> clause.\<close>

definition call_collector :: "(string \<times> collector) list \<Rightarrow> string \<Rightarrow> string \<Rightarrow> handle \<Rightarrow>
    exn + cell" where
  "call_collector col_collectors k fmt f_obj =
     (case map_of col_collectors k of
        None \<Rightarrow> Inl (KeyError k)
      | Some c \<Rightarrow> (case c fmt of None \<Rightarrow> Inl (KeyError fmt) | Some m \<Rightarrow> m f_obj))"

text \<open>The \<open>try\<close> statement: only \<open>NotImplementedError\<close> is caught.\<close>

definition cvalue :: "(string \<times> collector) list \<Rightarrow> string \<Rightarrow> string \<Rightarrow> handle \<Rightarrow> exn + cell" where
  "cvalue col_collectors k fmt f_obj =
     (case call_collector col_collectors k fmt f_obj of
        Inl NotImplementedError \<Rightarrow> Inr None
      | Inl e \<Rightarrow> Inl e
      | Inr v \<Rightarrow> Inr v)"

text \<open>The loop over the columns for one opened file: the values, in the order of the keys.\<close>

fun collect_row :: "(string \<times> collector) list \<Rightarrow> string \<Rightarrow> handle \<Rightarrow> string list \<Rightarrow>
    exn + cell list" where
  "collect_row col_collectors fmt f_obj [] = Inr []"
| "collect_row col_collectors fmt f_obj (k # ks) =
     (case cvalue col_collectors k fmt f_obj of
        Inl e \<Rightarrow> Inl e
      | Inr v \<Rightarrow> (case collect_row col_collectors fmt f_obj ks of
                   Inl e \<Rightarrow> Inl e
                 | Inr vs \<Rightarrow> Inr (v # vs)))"

text \<open>The body of the loop over the rows: open the file, collect, close. An exception
  of a collector leaves the loop before \<open>close\<close>.\<close>

definition process_row :: "registry \<Rightarrow> (string \<times> collector) list \<Rightarrow> string list \<Rightarrow>
    cell \<times> cell \<Rightarrow> (exn + cell list) \<times> event list" where
  "process_row reg col_collectors ks row =
     (case fst row of
        None \<Rightarrow> (Inl TypeError, [])
      | Some fn \<Rightarrow>
       (case snd row of
          None \<Rightarrow> (Inl (KeyError ''None''), [])
        | Some fmt \<Rightarrow>
         (case map_of (formats reg) fmt of
            None \<Rightarrow> (Inl (KeyError fmt), [])
          | Some kc \<Rightarrow>
           (case instantiate_format_cls kc fn of
              Inl e \<Rightarrow> (Inl e, [])
            | Inr f_obj \<Rightarrow>
             (case collect_row col_collectors fmt f_obj ks of
                Inl e \<Rightarrow> (Inl e, [Open fn])
              | Inr vs \<Rightarrow> (Inr vs, [Open fn, Close fn]))))))"

text \<open>The loop over the rows. The result is \<open>col_info\<close> as the list of its value lists, in
  the order of the keys: the values of a row are put in front of those of the later rows.\<close>

fun rows_loop :: "registry \<Rightarrow> (string \<times> collector) list \<Rightarrow> string list \<Rightarrow>
    (cell \<times> cell) list \<Rightarrow> (exn + cell list list) \<times> event list" where
  "rows_loop reg col_collectors ks [] = (Inr (map (\<lambda>k. []) ks), [])"
| "rows_loop reg col_collectors ks (row # rows) =
     (case process_row reg col_collectors ks row of
        (Inl e, evs) \<Rightarrow> (Inl e, evs)
      | (Inr vs, evs) \<Rightarrow>
         (case rows_loop reg col_collectors ks rows of
            (Inl e, evs') \<Rightarrow> (Inl e, evs @ evs')
          | (Inr cols, evs') \<Rightarrow> (Inr (map2 (#) vs cols), evs @ evs')))"

text \<open>\<open>target_table[key] = col_info[key]\<close>: a column of that name is replaced where it
  stands, a new one is put last.\<close>

definition set_column :: "string \<Rightarrow> cell list \<Rightarrow> table \<Rightarrow> table" where
  "set_column key vals t = t\<lparr>columns := AList.update key vals (columns t)\<rparr>"

definition note_col_name :: "string \<Rightarrow> string list \<Rightarrow> string list" where
  "note_col_name key names = (if key \<notin> set names then names @ [key] else names)"

text \<open>The method: the table and \<open>self.col_names\<close> as it leaves them, or the exception,
  and the events in order.\<close>

definition add_columns :: "registry \<Rightarrow> (string \<times> collector) list \<Rightarrow> table \<Rightarrow> bool \<Rightarrow>
    string list \<Rightarrow> (exn + table \<times> string list) \<times> event list" where
  "add_columns reg col_collectors target_table overwrite names =
     (let ks = col_info_keys col_collectors target_table overwrite;
          warns = col_warnings col_collectors target_table overwrite
      in case map_of (columns target_table) ''filename'' of
           None \<Rightarrow> (Inl (KeyError ''filename''), warns)
         | Some fns \<Rightarrow>
          (case map_of (columns target_table) ''fileformat'' of
             None \<Rightarrow> (Inl (KeyError ''fileformat''), warns)
           | Some fmts \<Rightarrow>
            (case rows_loop reg col_collectors ks (zip fns fmts) of
               (Inl e, evs) \<Rightarrow> (Inl e, warns @ evs)
             | (Inr cols, evs) \<Rightarrow>
                (Inr (fold (\<lambda>(key, vals). set_column key vals) (zip ks cols) target_table,
                      fold note_col_name ks names),
                 warns @ evs))))"

subsection \<open>\<open>setup_info_table\<close>\<close>

text \<open>The first loop removes entries from the list it runs over. Python's list iterator
  keeps an index into the list and stops when the index reaches the length the list has
  then; \<open>list.remove\<close> deletes the first element equal to its argument.\<close>

function prune_dirs :: "filesystem \<Rightarrow> nat \<Rightarrow> string list \<Rightarrow> string list" where
  "prune_dirs fs i ds =
     (if i < length ds then
        (if list_ex (\<lambda>ff. endswith ff ''.info'') (sub_listdir fs (ds ! i))
         then prune_dirs fs (Suc i) ds
         else prune_dirs fs (Suc i) (remove1 (ds ! i) ds))
      else ds)"
  by pat_completeness auto
termination
  by (relation "measure (\<lambda>(fs, i, ds). length ds - i)") (auto simp: length_remove1)

text \<open>The number of rows of a table.\<close>

definition nrows :: "table \<Rightarrow> nat" where
  "nrows t = (case columns t of [] \<Rightarrow> 0 | (c, vs) # rest \<Rightarrow> length vs)"

text \<open>The table that \<open>table.vstack([t1, t2])\<close> of astropy returns, with its default outer
  join: the rows of \<open>t1\<close>, then those of \<open>t2\<close>; the columns of \<open>t1\<close> in their order, then
  the columns only \<open>t2\<close> has; a cell whose table lacks the column is null. \<open>t2\<close> is built
  here with an empty \<open>meta\<close>, so the result keeps that of \<open>t1\<close>.\<close>

definition stacked :: "table \<Rightarrow> table \<Rightarrow> table" where
  "stacked t1 t2 =
     \<lparr>columns =
        map (\<lambda>(c, vs). (c, vs @ (case map_of (columns t2) c of
                                    Some ws \<Rightarrow> ws
                                  | None \<Rightarrow> replicate (nrows t2) None))) (columns t1)
        @ map (\<lambda>(c, ws). (c, replicate (nrows t1) None @ ws))
            (filter (\<lambda>(c, ws). c \<notin> set (map fst (columns t1))) (columns t2)),
      meta = meta t1\<rparr>"

text \<open>\<open>table.vstack([t1, t2])\<close>: it raises when the types of a column do not merge, and
  returns the stacked table otherwise.\<close>

definition vstack :: "registry \<Rightarrow> table \<Rightarrow> table \<Rightarrow> exn + table" where
  "vstack reg t1 t2 =
     (case merge_error reg t1 t2 of Some e \<Rightarrow> Inl e | None \<Rightarrow> Inr (stacked t1 t2))"

text \<open>The files of the scan that the stored table does not list, each with its format.
  The code takes them from a \<open>set\<close> difference, whose order Python leaves open; here they
  keep the order of \<open>format_map\<close>.\<close>

definition uncatalogued :: "(string \<times> string) list \<Rightarrow> cell list \<Rightarrow> (string \<times> string) list" where
  "uncatalogued format_map fns = filter (\<lambda>(f, tp). Some f \<notin> set fns) format_map"

text \<open>The branch for a stored table that has been read (lines 120 to 132): \<open>tbl\<close> is the
  table and \<open>fns\<close> its \<open>filename\<close> column. An exception of \<open>add_columns\<close> (line 128) or
  of \<open>vstack\<close> (line 129) leaves the constructor.\<close>

definition merge_new_files :: "registry \<Rightarrow> manager \<Rightarrow> (string \<times> string) list \<Rightarrow> table \<Rightarrow>
    cell list \<Rightarrow> (exn + manager) \<times> event list" where
  "merge_new_files reg self format_map tbl fns =
     (let curr_col = map fst (columns tbl);
          new = uncatalogued format_map fns;
          self2 = self\<lparr>info_table := tbl, new_files := map fst new\<rparr>
      in if map fst new \<noteq> [] then
           (let new_file_tp = map snd new;
                new_f_table =
                  \<lparr>columns = [(''filename'', map Some (map fst new)),
                              (''fileformat'', map Some new_file_tp)],
                   meta = []\<rparr>;
                curr_col_collector = get_col_collector reg curr_col []
            in case add_columns reg curr_col_collector new_f_table False (col_names self2) of
                 (Inl e, evs) \<Rightarrow> (Inl e, evs)
               | (Inr (nt, names), evs) \<Rightarrow>
                  (case vstack reg tbl nt of
                     Inl e \<Rightarrow> (Inl e, evs)
                   | Inr st \<Rightarrow>
                      (let st' = (if ''data_dir'' \<in> set new_file_tp
                                  then st\<lparr>meta := AList.update ''haschild'' (MBool True)
                                                      (meta st)\<rparr>
                                  else st)
                       in (Inr (self2\<lparr>info_table := st', col_names := names,
                                       table_update := True\<rparr>), evs))))
         else (Inr self2, []))"

text \<open>The branch without a stored table (lines 134 to 144); \<open>data_dir\<close> is
  \<open>self.files['data_dir']\<close>.\<close>

definition build_table :: "registry \<Rightarrow> string \<Rightarrow> manager \<Rightarrow> (string \<times> string) list \<Rightarrow>
    string list \<Rightarrow> (exn + manager) \<times> event list" where
  "build_table reg basename self format_map data_dir =
     (let haschild = (length data_dir > 0);
          tbl = \<lparr>columns = [(''filename'', map (\<lambda>(f, tp). Some f) format_map),
                            (''fileformat'', map (\<lambda>(f, tp). Some tp) format_map)],
                 meta = [(''name'', MStr (basename @ ''_info_table'')),
                         (''haschild'', MBool haschild)]\<rparr>;
          col_collector = get_col_collector reg (col_names self) []
      in case add_columns reg col_collector tbl False (col_names self) of
           (Inl e, evs) \<Rightarrow> (Inl e, evs)
         | (Inr (nt, names), evs) \<Rightarrow>
            (Inr (self\<lparr>info_table := nt, col_names := names, table_update := True\<rparr>), evs))"

definition setup_info_table :: "filesystem \<Rightarrow> registry \<Rightarrow> string \<Rightarrow> manager \<Rightarrow>
    (exn + manager) \<times> event list" where
  "setup_info_table fs reg basename self =
     (let data_dir = prune_dirs fs 0 (dict_get (files self) ''data_dir'');
          self1 = self\<lparr>files := AList.update ''data_dir'' data_dir (files self)\<rparr>;
          format_map = get_format_map (files self1)
      in if isfile fs (info_file_name self1) then
           (case read_table fs (info_file_name self1) of
              Inl e \<Rightarrow> (Inl e, [])
            | Inr tbl \<Rightarrow>
               (case map_of (columns tbl) ''filename'' of
                  None \<Rightarrow> (Inl (KeyError ''filename''), [])
                | Some fns \<Rightarrow> merge_new_files reg self1 format_map tbl fns))
         else build_table reg basename self1 format_map data_dir)"

subsection \<open>\<open>__init__\<close> and \<open>write_info_table\<close>\<close>

text \<open>The name of the catalogue file and the warning about a second one.\<close>

definition choose_info_file :: "string \<Rightarrow> string list \<Rightarrow> string \<times> event list" where
  "choose_info_file basename infos =
     (case infos of
        [] \<Rightarrow> (basename @ ''.info'', [])
      | x # xs \<Rightarrow> (x, if xs \<noteq> [] then [Warn x] else []))"

definition default_col_names :: "string list" where
  "default_col_names = [''station'', ''channel'', ''hdr_type'', ''start_time'']"

text \<open>The constructor, for the directory whose base name is \<open>basename\<close>.\<close>

definition init :: "filesystem \<Rightarrow> registry \<Rightarrow> string \<Rightarrow> string list \<Rightarrow>
    (exn + manager) \<times> event list" where
  "init fs reg basename add_col_names =
     (let all_files = listdir fs;
          fls = check_file_format fs reg all_files;
          (name, warns) = choose_info_file basename (dict_get fls ''info'');
          self = \<lparr>files = fls, info_file_name = name, new_files = [], table_update = False,
                  col_names = default_col_names @ add_col_names,
                  info_table = \<lparr>columns = [], meta = []\<rparr>\<rparr>
      in case setup_info_table fs reg basename self of (r, evs) \<Rightarrow> (r, warns @ evs))"

text \<open>\<open>Table.write(outpath, overwrite=True)\<close>: afterwards the directory has a regular file
  of that name, and reading it back gives the table.\<close>

definition store_table :: "string \<Rightarrow> table \<Rightarrow> filesystem \<Rightarrow> filesystem" where
  "store_table name t fs =
     fs\<lparr>listdir := (if name \<in> set (listdir fs) then listdir fs else listdir fs @ [name]),
        isfile := (isfile fs)(name := True),
        read_table := (read_table fs)(name := Inr t)\<rparr>"

definition write_info_table :: "manager \<Rightarrow> filesystem \<Rightarrow> filesystem" where
  "write_info_table self fs =
     (if table_update self then store_table (info_file_name self) (info_table self) fs
      else fs)"

subsection \<open>Notions used in the statements\<close>

text \<open>The format map that \<open>setup_info_table\<close> works with: the scan of the directory, with
  the list of subdirectories as the first loop leaves it.\<close>

definition scanned_map :: "filesystem \<Rightarrow> registry \<Rightarrow> (string \<times> string) list" where
  "scanned_map fs reg =
     (let fls = check_file_format fs reg (listdir fs)
      in get_format_map
           (AList.update ''data_dir'' (prune_dirs fs 0 (dict_get fls ''data_dir'')) fls))"

text \<open>The table and the flag of a constructed manager, if the constructor returned.\<close>

definition result_table :: "(exn + manager) \<times> event list \<Rightarrow> table option" where
  "result_table r = (case fst r of Inr st \<Rightarrow> Some (info_table st) | Inl e \<Rightarrow> None)"

definition result_update :: "(exn + manager) \<times> event list \<Rightarrow> bool option" where
  "result_update r = (case fst r of Inr st \<Rightarrow> Some (table_update st) | Inl e \<Rightarrow> None)"

text \<open>A collector behaves on an opened file when its method for the format returns a value
  or raises \<open>NotImplementedError\<close>.\<close>

definition collector_ok :: "(string \<times> collector) list \<Rightarrow> string \<Rightarrow> handle \<Rightarrow> string \<Rightarrow> bool" where
  "collector_ok col_collectors fmt f_obj k =
     (case call_collector col_collectors k fmt f_obj of
        Inl NotImplementedError \<Rightarrow> True
      | Inl e \<Rightarrow> False
      | Inr v \<Rightarrow> True)"

text \<open>A row can be processed: both cells are there, the format is registered, the file
  opens, and every collector among \<open>ks\<close> behaves on it.\<close>

definition row_ok :: "registry \<Rightarrow> (string \<times> collector) list \<Rightarrow> string list \<Rightarrow> cell \<times> cell \<Rightarrow> bool" where
  "row_ok reg col_collectors ks row =
     (case row of
        (Some fn, Some fmt) \<Rightarrow>
          (case map_of (formats reg) fmt of
             Some kc \<Rightarrow> (case instantiate_format_cls kc fn of
                           Inr f_obj \<Rightarrow> list_all (collector_ok col_collectors fmt f_obj) ks
                         | Inl e \<Rightarrow> False)
           | None \<Rightarrow> False)
      | _ \<Rightarrow> False)"

text \<open>The cell that the collector of column \<open>k\<close> gives for a row: the value it returns,
  null when it raises.\<close>

definition row_cell :: "registry \<Rightarrow> (string \<times> collector) list \<Rightarrow> string \<Rightarrow> cell \<times> cell \<Rightarrow> cell" where
  "row_cell reg col_collectors k row =
     (case row of
        (Some fn, Some fmt) \<Rightarrow>
          (case map_of (formats reg) fmt of
             Some kc \<Rightarrow> (case instantiate_format_cls kc fn of
                           Inr f_obj \<Rightarrow> (case call_collector col_collectors k fmt f_obj of
                                          Inr v \<Rightarrow> v | Inl e \<Rightarrow> None)
                         | Inl e \<Rightarrow> None)
           | None \<Rightarrow> None)
      | _ \<Rightarrow> None)"

text \<open>The events of a row that is processed to its end.\<close>

definition row_events :: "cell \<times> cell \<Rightarrow> event list" where
  "row_events row = (case fst row of Some fn \<Rightarrow> [Open fn, Close fn] | None \<Rightarrow> [])"

text \<open>The name the constructor gives the catalogue file of a directory, and its warning
  about a second \<open>.info\<close> entry.\<close>

definition catalogue_name :: "filesystem \<Rightarrow> registry \<Rightarrow> string \<Rightarrow> string" where
  "catalogue_name fs reg basename =
     fst (choose_info_file basename (dict_get (check_file_format fs reg (listdir fs)) ''info''))"

definition name_warnings :: "filesystem \<Rightarrow> registry \<Rightarrow> string \<Rightarrow> event list" where
  "name_warnings fs reg basename =
     snd (choose_info_file basename (dict_get (check_file_format fs reg (listdir fs)) ''info''))"

text \<open>\<open>new_f_table\<close> of \<open>setup_info_table\<close>, for the new files with their formats.\<close>

definition new_f_table :: "(string \<times> string) list \<Rightarrow> table" where
  "new_f_table new =
     \<lparr>columns = [(''filename'', map Some (map fst new)), (''fileformat'', map Some (map snd new))],
      meta = []\<rparr>"

text \<open>The fields of the manager when \<open>setup_info_table\<close> reaches the test for the
  catalogue file.\<close>

definition first_self :: "filesystem \<Rightarrow> registry \<Rightarrow> string \<Rightarrow> string list \<Rightarrow> manager" where
  "first_self fs reg basename add_col_names =
     \<lparr>files = AList.update ''data_dir''
                (prune_dirs fs 0 (dict_get (check_file_format fs reg (listdir fs)) ''data_dir''))
                (check_file_format fs reg (listdir fs)),
      info_file_name = catalogue_name fs reg basename,
      new_files = [], table_update = False,
      col_names = default_col_names @ add_col_names,
      info_table = \<lparr>columns = [], meta = []\<rparr>\<rparr>"

text \<open>The tables the manager produces: built from a scan where the directory has no
  catalogue file, or an update of a stored table that the manager produced before. The
  directory and the registries are arbitrary at every step.\<close>

inductive produced :: "table \<Rightarrow> bool" where
  built: "\<not> isfile fs (catalogue_name fs reg basename) \<Longrightarrow>
          init fs reg basename add_col_names = (Inr st, evs) \<Longrightarrow>
          produced (info_table st)"
| updated: "produced tbl \<Longrightarrow>
            isfile fs (catalogue_name fs reg basename) \<Longrightarrow>
            read_table fs (catalogue_name fs reg basename) = Inr tbl \<Longrightarrow>
            init fs reg basename add_col_names = (Inr st, evs) \<Longrightarrow>
            produced (info_table st)"


text \<open>\<open>write_info_table\<close> after the constructor, if it returned.\<close>

definition persist :: "(exn + manager) \<times> event list \<Rightarrow> filesystem \<Rightarrow> filesystem" where
  "persist r fs = (case fst r of Inr st \<Rightarrow> write_info_table st fs | Inl e \<Rightarrow> fs)"

text \<open>The categories that the format map is made of: those other than \<open>info\<close> that hold
  a file.\<close>

definition cats :: "(string \<times> string list) list \<Rightarrow> (string \<times> string list) list" where
  "cats ff = filter (\<lambda>(tp, flist). tp \<noteq> ''info'' \<and> flist \<noteq> []) ff"

subsection \<open>Example directories and registries\<close>

text \<open>A format that takes every file, and one that takes none; both open any file.\<close>

definition any_format :: format_cls where
  "any_format = \<lparr>is_format = (\<lambda>f. True), instantiate_format_cls = (\<lambda>f. Inr f)\<rparr>"

definition no_format :: format_cls where
  "no_format = \<lparr>is_format = (\<lambda>f. False), instantiate_format_cls = (\<lambda>f. Inr f)\<rparr>"

definition reg_any :: registry where
  "reg_any = \<lparr>formats = [(''any'', any_format)], info_name_list = [],
     merge_error = (\<lambda>t1 t2. None)\<rparr>"

definition reg_none :: registry where
  "reg_none = \<lparr>formats = [(''bbx'', no_format)], info_name_list = [],
     merge_error = (\<lambda>t1 t2. None)\<rparr>"

definition reg_dirs :: registry where
  "reg_dirs = \<lparr>formats = [(''data_dir'', any_format)], info_name_list = [],
     merge_error = (\<lambda>t1 t2. None)\<rparr>"

definition empty_dir :: filesystem where
  "empty_dir = \<lparr>listdir = [], isdir = (\<lambda>f. False), isfile = (\<lambda>f. False),
     sub_listdir = (\<lambda>d. []), read_table = (\<lambda>f. Inl (Raised ''IOError''))\<rparr>"

text \<open>A directory with one regular file that no format takes.\<close>

definition plain_dir :: filesystem where
  "plain_dir = empty_dir\<lparr>listdir := [''notes.txt'']\<rparr>"

text \<open>A directory with two subdirectories, neither of which holds a \<open>.info\<close> file.\<close>

definition two_subdirs :: filesystem where
  "two_subdirs = empty_dir\<lparr>listdir := [''s1'', ''s2''], isdir := (\<lambda>f. True)\<rparr>"

text \<open>A directory whose only entry is its catalogue file, a stored table without rows
  (whose columns are declared as strings, so that rows of file names merge with it).\<close>

definition empty_catalogue :: table where
  "empty_catalogue = \<lparr>columns = [(''filename'', []), (''fileformat'', [])], meta = []\<rparr>"

definition info_dir :: filesystem where
  "info_dir = empty_dir\<lparr>listdir := [''a.info''], isfile := (\<lambda>f. f = ''a.info''),
     read_table := (\<lambda>f. if f = ''a.info'' then Inr empty_catalogue
                         else Inl (Raised ''IOError''))\<rparr>"

text \<open>A format for names ending in \<open>.bbx\<close>; the file \<open>gone.bbx\<close> cannot be opened.\<close>

definition bbx_format :: format_cls where
  "bbx_format = \<lparr>is_format = (\<lambda>f. endswith f ''.bbx''),
     instantiate_format_cls = (\<lambda>f. if f = ''gone.bbx'' then Inl (Raised ''IOError'') else Inr f)\<rparr>"

text \<open>Three collectors for that format: one returns a value, one is not implemented, one
  fails.\<close>

definition station_collector :: collector where
  "station_collector = [''bbx'' \<mapsto> (\<lambda>f_obj. Inr (Some ''LoFASM1''))]"

definition channel_collector :: collector where
  "channel_collector = [''bbx'' \<mapsto> (\<lambda>f_obj. Inl NotImplementedError)]"

definition failing_collector :: collector where
  "failing_collector = [''bbx'' \<mapsto> (\<lambda>f_obj. Inl (Raised ''ValueError''))]"

definition reg_bbx :: registry where
  "reg_bbx = \<lparr>formats = [(''bbx'', bbx_format)],
     info_name_list = [(''station'', station_collector), (''channel'', channel_collector)],
     merge_error = (\<lambda>t1 t2. None)\<rparr>"

text \<open>Tables of two files: both readable; the first one gone; with a \<open>station\<close> column
  already there.\<close>

definition two_rows :: table where
  "two_rows = \<lparr>columns = [(''filename'', [Some ''a.bbx'', Some ''b.bbx'']),
                           (''fileformat'', [Some ''bbx'', Some ''bbx''])], meta = []\<rparr>"

definition gone_rows :: table where
  "gone_rows = \<lparr>columns = [(''filename'', [Some ''gone.bbx'', Some ''b.bbx'']),
                            (''fileformat'', [Some ''bbx'', Some ''bbx''])], meta = []\<rparr>"

definition station_rows :: table where
  "station_rows = \<lparr>columns = [(''filename'', [Some ''a.bbx'', Some ''b.bbx'']),
                               (''fileformat'', [Some ''bbx'', Some ''bbx'']),
                               (''station'', [Some ''old'', None])], meta = []\<rparr>"

text \<open>A directory with one data file; the table the constructor builds for it; the same
  directory later, with the table stored as \<open>d.info\<close> and a second data file.\<close>

definition bbx_dir :: filesystem where
  "bbx_dir = empty_dir\<lparr>listdir := [''a.bbx'']\<rparr>"

definition one_row_catalogue :: table where
  "one_row_catalogue =
     \<lparr>columns = [(''filename'', [Some ''a.bbx'']), (''fileformat'', [Some ''bbx'']),
                 (''station'', [Some ''LoFASM1'']), (''channel'', [None])],
      meta = [(''name'', MStr ''d_info_table''), (''haschild'', MBool False)]\<rparr>"

definition grown_dir :: filesystem where
  "grown_dir = empty_dir\<lparr>listdir := [''a.bbx'', ''d.info'', ''b.bbx''],
     isfile := (\<lambda>f. f \<in> {''a.bbx'', ''d.info'', ''b.bbx''}),
     read_table := (\<lambda>f. if f = ''d.info'' then Inr one_row_catalogue
                         else Inl (Raised ''IOError''))\<rparr>"

text \<open>The table of that directory after the constructor has merged the second file in.\<close>

definition two_row_catalogue :: table where
  "two_row_catalogue =
     \<lparr>columns = [(''filename'', [Some ''a.bbx'', Some ''b.bbx'']),
                 (''fileformat'', [Some ''bbx'', Some ''bbx'']),
                 (''station'', [Some ''LoFASM1'', Some ''LoFASM1'']),
                 (''channel'', [None, None])],
      meta = [(''name'', MStr ''d_info_table''), (''haschild'', MBool False)]\<rparr>"






text \<open>A directory with one file, for the registry whose format takes every file.\<close>

definition dat_dir :: filesystem where
  "dat_dir = empty_dir\<lparr>listdir := [''a.dat'']\<rparr>"

section \<open>Properties\<close>

subsection \<open>Dictionaries and the format map\<close>

lemma set_dict_keys:
  "fst ` set (fold (\<lambda>(k, v) d. AList.update k v d) kvs d0) = fst ` set kvs \<union> fst ` set d0"
proof (induction kvs arbitrary: d0)
  case Nil
  show ?case by simp
next
  case (Cons p kvs)
  obtain k v where p: "p = (k, v)" by (cases p)
  have "fst ` set (fold (\<lambda>(k, v) d. AList.update k v d) kvs (AList.update k v d0))
        = fst ` set kvs \<union> fst ` set (AList.update k v d0)"
    by (rule Cons.IH)
  then show ?case unfolding AList.dom_update by (auto simp: p)
qed

lemma dict_keys: "fst ` set (dict kvs) = fst ` set kvs"
  by (simp add: dict_def set_dict_keys)

lemma distinct_fold_update:
  "distinct (map fst d0) \<Longrightarrow> distinct (map fst (fold (\<lambda>(k, v) d. AList.update k v d) kvs d0))"
  by (induction kvs arbitrary: d0) (auto simp: AList.distinct_update)

lemma distinct_dict: "distinct (map fst (dict kvs))"
  by (simp add: dict_def distinct_fold_update)

lemma zip_files_formats:
  "zip (concat (map snd kept)) (concat (map (\<lambda>(tp, flist). replicate (length flist) tp) kept))
   = concat (map (\<lambda>(tp, flist). map (\<lambda>f. (f, tp)) flist) kept)"
proof (induction kept)
  case Nil
  show ?case by simp
next
  case (Cons p kept)
  obtain tp flist where p: "p = (tp, flist)" by (cases p)
  have "zip flist (replicate (length flist) tp) = map (\<lambda>f. (f, tp)) flist"
    by (induction flist) auto
  with Cons p show ?case by simp
qed

lemma format_map_keys:
  "fst ` set (get_format_map fls) =
     (\<Union>(tp, flist) \<in> set fls. if tp = ''info'' then {} else set flist)"
  unfolding get_format_map_def Let_def dict_keys zip_files_formats
  by (auto simp: image_iff split: if_splits) force+

lemma distinct_format_map: "distinct (map fst (get_format_map fls))"
  by (simp add: get_format_map_def Let_def distinct_dict)

subsection \<open>Where the members of a category come from\<close>

lemma in_map_entry:
  "(tp, l) \<in> set (AList.map_entry k g ff) \<Longrightarrow>
     (tp, l) \<in> set ff \<or> (tp = k \<and> (\<exists>l0. (k, l0) \<in> set ff \<and> l = g l0))"
  by (induction ff) (auto split: if_splits)

lemma in_update:
  "(tp, l) \<in> set (AList.update k v ff) \<Longrightarrow> (tp, l) \<in> set ff \<or> (tp = k \<and> l = v)"
  by (induction ff) (auto split: if_splits)

lemma classify_members:
  "(tp, l) \<in> set (classify rest fn ff) \<Longrightarrow> f \<in> set l \<Longrightarrow>
     (\<exists>l0. (tp, l0) \<in> set ff \<and> f \<in> set l0) \<or>
     (f = fn \<and> (\<exists>kc. (tp, kc) \<in> set rest \<and> is_format kc fn))"
proof (induction rest fn ff rule: classify.induct)
  case (1 fn ff)
  then show ?case by auto
next
  case (2 k kc rest fn ff)
  define ff' where "ff' = (if k \<notin> set (map fst ff) then AList.update k [] ff else ff)"
  have ff': "\<And>tp l0. (tp, l0) \<in> set ff' \<Longrightarrow> f \<in> set l0 \<Longrightarrow> (tp, l0) \<in> set ff"
    unfolding ff'_def by (auto dest: in_update split: if_splits)
  show ?case
  proof (cases "is_format kc fn")
    case True
    with 2(2) have "(tp, l) \<in> set (dict_append k fn ff')"
      by (simp add: ff'_def Let_def)
    then have "(tp, l) \<in> set ff' \<or> (tp = k \<and> (\<exists>l0. (k, l0) \<in> set ff' \<and> l = l0 @ [fn]))"
      unfolding dict_append_def by (rule in_map_entry)
    with 2(3) True show ?thesis by (auto dest: ff')
  next
    case False
    with 2(2) have "(tp, l) \<in> set (classify rest fn ff')"
      by (simp add: ff'_def Let_def)
    with 2(1)[OF refl False, folded ff'_def] 2(3)
    have "(\<exists>l0. (tp, l0) \<in> set ff' \<and> f \<in> set l0) \<or>
          (f = fn \<and> (\<exists>kc. (tp, kc) \<in> set rest \<and> is_format kc fn))"
      by blast
    then show ?thesis by (auto dest: ff')
  qed
qed

lemma check_loop_members:
  "(tp, l) \<in> set (check_loop fs fmts fnames ff) \<Longrightarrow> f \<in> set l \<Longrightarrow>
     (\<exists>l0. (tp, l0) \<in> set ff \<and> f \<in> set l0) \<or>
     (f \<in> set fnames \<and>
        ((tp = ''info'' \<and> endswith f ''.info'') \<or>
         (tp = ''data_dir'' \<and> isdir fs f) \<or>
         (\<not> isdir fs f \<and> (\<exists>kc. (tp, kc) \<in> set fmts \<and> is_format kc f))))"
proof (induction fs fmts fnames ff rule: check_loop.induct)
  case (1 fs fmts ff)
  then show ?case by auto
next
  case (2 fs fmts fn rest ff)
  define ff1 where "ff1 = (if endswith fn ''.info'' then dict_append ''info'' fn ff else ff)"
  define ff2 where "ff2 = (if isdir fs fn then dict_append ''data_dir'' fn ff1
                           else classify fmts fn ff1)"
  have s1: "(tp, l0) \<in> set ff1 \<Longrightarrow> f \<in> set l0 \<Longrightarrow>
      (\<exists>l1. (tp, l1) \<in> set ff \<and> f \<in> set l1) \<or> (f = fn \<and> tp = ''info'' \<and> endswith f ''.info'')"
    for l0
    unfolding ff1_def dict_append_def by (auto dest!: in_map_entry split: if_splits)
  have s2: "(tp, l0) \<in> set ff2 \<Longrightarrow> f \<in> set l0 \<Longrightarrow>
      (\<exists>l1. (tp, l1) \<in> set ff1 \<and> f \<in> set l1) \<or>
      (f = fn \<and> ((tp = ''data_dir'' \<and> isdir fs f) \<or>
                 (\<not> isdir fs f \<and> (\<exists>kc. (tp, kc) \<in> set fmts \<and> is_format kc f))))"
    for l0
  proof (cases "isdir fs fn")
    case True
    assume "(tp, l0) \<in> set ff2" "f \<in> set l0"
    with True show ?thesis
      unfolding ff2_def dict_append_def by (auto dest!: in_map_entry)
  next
    case False
    assume a: "(tp, l0) \<in> set ff2" "f \<in> set l0"
    with False have "(tp, l0) \<in> set (classify fmts fn ff1)" by (simp add: ff2_def)
    from classify_members[OF this a(2)] False show ?thesis by auto
  qed
  from 2(2) have "(tp, l) \<in> set (check_loop fs fmts rest ff2)"
    by (simp only: check_loop.simps Let_def ff1_def ff2_def)
  from 2(1)[OF ff1_def ff2_def this 2(3)]
  show ?case using s1 s2 by (auto; blast)
qed

subsection \<open>Files that no format takes\<close>

text \<open>
  C6, as the code has it. A regular file that none of the registered formats takes is put
  in no category by \<open>check_file_format\<close>, except \<open>info\<close> when its name ends in \<open>.info\<close>;
  there is no category for unformatted files, and the file is not a key of the format
  map, from which the rows of the table are taken.
\<close>

theorem unmatched_file_not_listed:
  assumes "\<not> isdir fs f" and "\<forall>(k, kc) \<in> set (formats reg). \<not> is_format kc f"
  shows "f \<notin> fst ` set (get_format_map (check_file_format fs reg fnames)) \<and>
         (\<forall>tp l. (tp, l) \<in> set (check_file_format fs reg fnames) \<and> f \<in> set l
            \<longrightarrow> tp = ''info'')"
proof -
  have cat: "tp = ''info''"
    if "(tp, l) \<in> set (check_file_format fs reg fnames)" "f \<in> set l" for tp l
    using check_loop_members[OF that(1)[unfolded check_file_format_def] that(2)] assms
    by auto
  then show ?thesis
    unfolding format_map_keys by (auto split: if_splits)
qed

theorem unmatched_file_not_listed_witness:
  "\<not> isdir plain_dir ''notes.txt'' \<and>
   ''notes.txt'' \<notin> fst ` set (get_format_map (check_file_format plain_dir reg_none [''notes.txt'']))"
  using unmatched_file_not_listed[of plain_dir "''notes.txt''" reg_none "[''notes.txt'']"]
  by (simp add: plain_dir_def empty_dir_def reg_none_def no_format_def)

text \<open>
  C6 as the spec states it fails: in a directory whose only entry is the regular file
  \<open>notes.txt\<close>, with one registered format that does not take it, the scan lists the file
  in no category, the format map is empty and the table built has no row.
\<close>

theorem unmatched_file_listed_counterexample:
  "check_file_format plain_dir reg_none (listdir plain_dir) =
     [(''data_dir'', []), (''info'', []), (''bbx'', [])] \<and>
   get_format_map (check_file_format plain_dir reg_none (listdir plain_dir)) = [] \<and>
   result_table (init plain_dir reg_none ''d'' []) =
     Some \<lparr>columns = [(''filename'', []), (''fileformat'', [])],
           meta = [(''name'', MStr ''d_info_table''), (''haschild'', MBool False)]\<rparr>"
  by code_simp

subsection \<open>Subdirectories without a catalogue\<close>

text \<open>
  C5 at a directory with the two subdirectories \<open>s1\<close> and \<open>s2\<close>, neither holding a
  \<open>.info\<close> file: removing \<open>s1\<close> from the list while the loop runs over it moves \<open>s2\<close> to
  the position the loop has passed, so \<open>s2\<close> is never tested. It stays in the list, is a
  key of the format map, and is a row of the table.
\<close>

theorem prune_dirs_skips_entry:
  "prune_dirs two_subdirs 0 [''s1'', ''s2''] = [''s2''] \<and>
   scanned_map two_subdirs reg_dirs = [(''s2'', ''data_dir'')] \<and>
   result_table (init two_subdirs reg_dirs ''d'' []) =
     Some \<lparr>columns = [(''filename'', [Some ''s2'']), (''fileformat'', [Some ''data_dir''])],
           meta = [(''name'', MStr ''d_info_table''), (''haschild'', MBool True)]\<rparr>"
  by code_simp

subsection \<open>Catalogue files and the formats\<close>

text \<open>
  C9 at a directory whose only entry is the catalogue file \<open>a.info\<close>, with one registered
  format that takes every file: the file is put in the category \<open>info\<close> and, by the loop
  over the formats that follows, in the category of the format as well. It is a key of
  the format map, and the constructor adds a row for it to the stored table.
\<close>

theorem info_file_is_classified:
  "check_file_format info_dir reg_any (listdir info_dir) =
     [(''data_dir'', []), (''info'', [''a.info'']), (''any'', [''a.info''])] \<and>
   get_format_map (check_file_format info_dir reg_any (listdir info_dir)) =
     [(''a.info'', ''any'')] \<and>
   result_table (init info_dir reg_any ''d'' []) =
     Some \<lparr>columns = [(''filename'', [Some ''a.info'']), (''fileformat'', [Some ''any''])],
           meta = []\<rparr>"
  by code_simp

subsection \<open>The loops of \<open>add_columns\<close> on rows that can be processed\<close>

lemma cvalue_ok:
  "collector_ok cc fmt h k \<Longrightarrow>
   cvalue cc k fmt h = Inr (case call_collector cc k fmt h of Inr v \<Rightarrow> v | Inl e \<Rightarrow> None)"
  by (auto simp: collector_ok_def cvalue_def split: sum.splits exn.splits)

lemma collect_row_ok:
  "list_all (collector_ok cc fmt h) ks \<Longrightarrow>
   collect_row cc fmt h ks =
     Inr (map (\<lambda>k. case call_collector cc k fmt h of Inr v \<Rightarrow> v | Inl e \<Rightarrow> None) ks)"
  by (induction ks) (simp_all add: cvalue_ok)

lemma process_row_ok:
  "row_ok reg cc ks row \<Longrightarrow>
   process_row reg cc ks row = (Inr (map (\<lambda>k. row_cell reg cc k row) ks), row_events row)"
  by (cases row)
     (auto simp: row_ok_def process_row_def row_cell_def row_events_def collect_row_ok
           split: option.splits sum.splits)

lemma map2_Cons_map: "map2 (#) (map g ks) (map h ks) = map (\<lambda>k. g k # h k) ks"
  by (induction ks) auto

lemma rows_loop_ok:
  "list_all (row_ok reg cc ks) rows \<Longrightarrow>
   rows_loop reg cc ks rows =
     (Inr (map (\<lambda>k. map (row_cell reg cc k) rows) ks), concat (map row_events rows))"
  by (induction rows) (simp_all add: process_row_ok map2_Cons_map)

lemma rows_loop_raise:
  "list_all (row_ok reg cc ks) pre \<Longrightarrow> process_row reg cc ks row = (Inl e, evs) \<Longrightarrow>
   rows_loop reg cc ks (pre @ row # post) = (Inl e, concat (map row_events pre) @ evs)"
  by (induction pre) (simp_all add: process_row_ok)

lemma collect_row_length:
  "collect_row cc fmt h ks = Inr vs \<Longrightarrow> length vs = length ks"
  by (induction ks arbitrary: vs) (auto split: sum.splits)

lemma process_row_length:
  "process_row reg cc ks row = (Inr vs, evs) \<Longrightarrow> length vs = length ks"
  by (auto simp: process_row_def collect_row_length split: option.splits sum.splits)

lemma rows_loop_length:
  "rows_loop reg cc ks rows = (Inr cols, evs) \<Longrightarrow> length cols = length ks"
proof (induction rows arbitrary: cols evs)
  case Nil
  then show ?case by auto
next
  case (Cons row rows)
  then show ?case
    by (auto split: prod.splits sum.splits dest: process_row_length)
qed

lemma columns_fold_set:
  "map_of (columns (fold (\<lambda>(key, vals). set_column key vals) kvs t)) =
     map_of (columns t) ++ map_of (rev kvs)"
proof (induction kvs arbitrary: t)
  case Nil
  show ?case by simp
next
  case (Cons p kvs)
  obtain k v where p: "p = (k, v)" by (cases p)
  have "map_of (columns (fold (\<lambda>(key, vals). set_column key vals) (p # kvs) t)) =
        map_of (columns (set_column k v t)) ++ map_of (rev kvs)"
    unfolding p by (simp only: fold.simps o_apply prod.case Cons)
  also have "map_of (columns (set_column k v t)) = (map_of (columns t))(k \<mapsto> v)"
    by (simp add: set_column_def AList.update_conv')
  finally show ?case
    by (simp add: p map_add_def fun_eq_iff split: option.splits)
qed

lemma meta_fold_set [simp]:
  "meta (fold (\<lambda>(key, vals). set_column key vals) kvs t) = meta t"
  by (induction kvs arbitrary: t) (auto simp: set_column_def)

lemma map_of_rev_keyed:
  "map_of (rev (zip ks (map g ks))) x = (if x \<in> set ks then Some (g x) else None)"
  by (induction ks) (auto simp: map_add_def zip_map2 split: option.splits)

lemma rows_loop_events:
  "list_all (row_ok reg cc ks) pre \<Longrightarrow> process_row reg cc ks row = (Inr vs, evs) \<Longrightarrow>
   \<exists>evs'. snd (rows_loop reg cc ks (pre @ row # post)) = concat (map row_events pre) @ evs @ evs'"
  by (induction pre) (auto simp: process_row_ok split: prod.splits sum.splits)

lemma add_columns_ok:
  assumes "map_of (columns t) ''filename'' = Some fns"
      and "map_of (columns t) ''fileformat'' = Some fmts"
      and "list_all (row_ok reg cc (col_info_keys cc t ow)) (zip fns fmts)"
  shows "add_columns reg cc t ow names =
     (Inr (fold (\<lambda>(key, vals). set_column key vals)
             (zip (col_info_keys cc t ow)
                  (map (\<lambda>k. map (row_cell reg cc k) (zip fns fmts)) (col_info_keys cc t ow))) t,
           fold note_col_name (col_info_keys cc t ow) names),
      col_warnings cc t ow @ concat (map row_events (zip fns fmts)))"
  using assms by (simp add: add_columns_def rows_loop_ok Let_def)

lemma add_columns_raise:
  assumes "map_of (columns t) ''filename'' = Some fns"
      and "map_of (columns t) ''fileformat'' = Some fmts"
      and "zip fns fmts = pre @ row # post"
      and "list_all (row_ok reg cc (col_info_keys cc t ow)) pre"
      and "process_row reg cc (col_info_keys cc t ow) row = (Inl e, evs)"
  shows "add_columns reg cc t ow names =
     (Inl e, col_warnings cc t ow @ concat (map row_events pre) @ evs)"
  using assms by (simp add: add_columns_def rows_loop_raise Let_def)

lemma add_columns_column:
  assumes "map_of (columns t) ''filename'' = Some fns"
      and "map_of (columns t) ''fileformat'' = Some fmts"
      and "list_all (row_ok reg cc (col_info_keys cc t ow)) (zip fns fmts)"
      and "add_columns reg cc t ow names = (Inr (t', names'), evs)"
  shows "map_of (columns t') k =
     (if k \<in> set (col_info_keys cc t ow) then Some (map (row_cell reg cc k) (zip fns fmts))
      else map_of (columns t) k)"
  using assms(4) unfolding add_columns_ok[OF assms(1-3)]
  by (auto simp: columns_fold_set map_add_def map_of_rev_keyed)

subsection \<open>Collectors without an implementation for a format\<close>

text \<open>
  C7. Let every row of the table be one whose file opens and on which every collector to
  run returns a value or raises \<open>NotImplementedError\<close>. Then \<open>add_columns\<close> raises
  nothing and returns the table, and in each computed column the cell of a row is null
  where the collector raised \<open>NotImplementedError\<close> on the file of that row and is the
  returned value where it returned one: every collector runs on every row.
\<close>

theorem not_implemented_is_null:
  assumes "map_of (columns t) ''filename'' = Some fns"
      and "map_of (columns t) ''fileformat'' = Some fmts"
      and "list_all (row_ok reg cc (col_info_keys cc t ow)) (zip fns fmts)"
  shows "\<exists>t' names' evs. add_columns reg cc t ow names = (Inr (t', names'), evs) \<and>
     (\<forall>k \<in> set (col_info_keys cc t ow). \<exists>col.
        map_of (columns t') k = Some col \<and> length col = length (zip fns fmts) \<and>
        (\<forall>i < length (zip fns fmts). \<forall>fn fmt kc h.
           zip fns fmts ! i = (Some fn, Some fmt) \<and> map_of (formats reg) fmt = Some kc \<and>
           instantiate_format_cls kc fn = Inr h \<longrightarrow>
             (call_collector cc k fmt h = Inl NotImplementedError \<longrightarrow> col ! i = None) \<and>
             (\<forall>v. call_collector cc k fmt h = Inr v \<longrightarrow> col ! i = v)))"
proof -
  obtain t' names' evs where r: "add_columns reg cc t ow names = (Inr (t', names'), evs)"
    using add_columns_ok[OF assms] by blast
  have "\<exists>col. map_of (columns t') k = Some col \<and> length col = length (zip fns fmts) \<and>
        (\<forall>i < length (zip fns fmts). \<forall>fn fmt kc h.
           zip fns fmts ! i = (Some fn, Some fmt) \<and> map_of (formats reg) fmt = Some kc \<and>
           instantiate_format_cls kc fn = Inr h \<longrightarrow>
             (call_collector cc k fmt h = Inl NotImplementedError \<longrightarrow> col ! i = None) \<and>
             (\<forall>v. call_collector cc k fmt h = Inr v \<longrightarrow> col ! i = v))"
    if k: "k \<in> set (col_info_keys cc t ow)" for k
  proof -
    have "map_of (columns t') k = Some (map (row_cell reg cc k) (zip fns fmts))"
      using add_columns_column[OF assms r] k by simp
    then show ?thesis
      by (auto simp: row_cell_def)
  qed
  with r show ?thesis by blast
qed

text \<open>Two files, a collector with a value and one that is not implemented: the column of
  the second is null in both rows.\<close>

theorem not_implemented_is_null_witness:
  "\<exists>t' names' evs.
     add_columns reg_bbx [(''station'', station_collector), (''channel'', channel_collector)]
       two_rows False [] = (Inr (t', names'), evs) \<and>
     map_of (columns t') ''channel'' = Some [None, None]"
proof -
  let ?cc = "[(''station'', station_collector), (''channel'', channel_collector)]"
  have c1: "map_of (columns two_rows) ''filename'' = Some [Some ''a.bbx'', Some ''b.bbx'']"
    by (simp add: two_rows_def)
  have c2: "map_of (columns two_rows) ''fileformat'' = Some [Some ''bbx'', Some ''bbx'']"
    by (simp add: two_rows_def)
  have ok: "list_all (row_ok reg_bbx ?cc (col_info_keys ?cc two_rows False))
              (zip [Some ''a.bbx'', Some ''b.bbx''] [Some ''bbx'', Some ''bbx''])"
    by code_simp
  have k: "''channel'' \<in> set (col_info_keys ?cc two_rows False)"
    by code_simp
  from not_implemented_is_null[OF c1 c2 ok, of "[]"] k
  obtain t' names' evs col where r:
    "add_columns reg_bbx ?cc two_rows False [] = (Inr (t', names'), evs)"
    "map_of (columns t') ''channel'' = Some col" "length col = 2"
    and cells: "\<And>i fn fmt kc h. i < 2 \<Longrightarrow>
       zip [Some ''a.bbx'', Some ''b.bbx''] [Some ''bbx'', Some ''bbx''] ! i = (Some fn, Some fmt) \<Longrightarrow>
       map_of (formats reg_bbx) fmt = Some kc \<Longrightarrow> instantiate_format_cls kc fn = Inr h \<Longrightarrow>
       call_collector ?cc ''channel'' fmt h = Inl NotImplementedError \<Longrightarrow> col ! i = None"
    by (fastforce simp: )
  have "col ! 0 = None"
    by (rule cells[of 0 "''a.bbx''" "''bbx''" bbx_format "''a.bbx''"])
       (simp_all add: reg_bbx_def bbx_format_def call_collector_def channel_collector_def)
  moreover have "col ! 1 = None"
    by (rule cells[of 1 "''b.bbx''" "''bbx''" bbx_format "''b.bbx''"])
       (simp_all add: reg_bbx_def bbx_format_def call_collector_def channel_collector_def)
  ultimately have "col = [None, None]"
    using r(3) by (cases col; cases "tl col"; cases "tl (tl col)") auto
  with r show ?thesis by blast
qed

lemma col_info_keys_no_overwrite:
  "col_info_keys cc t False = filter (\<lambda>k. k \<notin> set (map fst (columns t))) (map fst cc)"
  by (simp add: col_info_keys_def)

subsection \<open>A requested column that the table already has\<close>

text \<open>
  C10. Let \<open>cn\<close> be a requested column that the table already has, \<open>overwrite\<close> be off,
  and let every row be one that can be processed for the requested columns the table
  does not have yet. Then \<open>add_columns\<close> raises nothing, the column \<open>cn\<close> of the table
  returned is the one of the table given, a warning about \<open>cn\<close> is logged, and every
  requested column the table did not have holds the cells its collector gives. The
  collector of \<open>cn\<close> is not run: nothing is assumed about it.
\<close>

theorem existing_column_kept:
  assumes "map_of (columns t) ''filename'' = Some fns"
      and "map_of (columns t) ''fileformat'' = Some fmts"
      and "cn \<in> set (map fst cc)" and "cn \<in> set (map fst (columns t))"
      and "list_all (row_ok reg cc (filter (\<lambda>k. k \<notin> set (map fst (columns t))) (map fst cc)))
             (zip fns fmts)"
  shows "\<exists>t' names' evs. add_columns reg cc t False names = (Inr (t', names'), evs) \<and>
     map_of (columns t') cn = map_of (columns t) cn \<and>
     Warn cn \<in> set evs \<and>
     (\<forall>k \<in> set (map fst cc). k \<notin> set (map fst (columns t)) \<longrightarrow>
        map_of (columns t') k = Some (map (row_cell reg cc k) (zip fns fmts)))"
proof -
  have ok: "list_all (row_ok reg cc (col_info_keys cc t False)) (zip fns fmts)"
    using assms(5) by (simp add: col_info_keys_no_overwrite)
  obtain t' names' evs where r: "add_columns reg cc t False names = (Inr (t', names'), evs)"
    using add_columns_ok[OF assms(1,2) ok] by blast
  have col: "map_of (columns t') k =
     (if k \<in> set (col_info_keys cc t False) then Some (map (row_cell reg cc k) (zip fns fmts))
      else map_of (columns t) k)" for k
    by (rule add_columns_column[OF assms(1,2) ok r])
  have "Warn cn \<in> set (col_warnings cc t False)"
    using assms(3,4) by (auto simp: col_warnings_def)
  then have "Warn cn \<in> set evs"
    using r unfolding add_columns_ok[OF assms(1,2) ok] by auto
  moreover have "map_of (columns t') cn = map_of (columns t) cn"
    using assms(4) by (simp add: col col_info_keys_no_overwrite)
  moreover have "\<forall>k \<in> set (map fst cc). k \<notin> set (map fst (columns t)) \<longrightarrow>
        map_of (columns t') k = Some (map (row_cell reg cc k) (zip fns fmts))"
    by (simp add: col col_info_keys_no_overwrite)
  ultimately show ?thesis using r by blast
qed

text \<open>The table has a \<open>station\<close> column; the collector requested for it would fail.\<close>

theorem existing_column_kept_witness:
  "\<exists>t' names' evs.
     add_columns reg_bbx [(''station'', failing_collector), (''channel'', channel_collector)]
       station_rows False [] = (Inr (t', names'), evs) \<and>
     map_of (columns t') ''station'' = Some [Some ''old'', None] \<and>
     Warn ''station'' \<in> set evs \<and>
     map_of (columns t') ''channel'' = Some [None, None]"
proof -
  let ?cc = "[(''station'', failing_collector), (''channel'', channel_collector)]"
  have c1: "map_of (columns station_rows) ''filename'' = Some [Some ''a.bbx'', Some ''b.bbx'']"
    by (simp add: station_rows_def)
  have c2: "map_of (columns station_rows) ''fileformat'' = Some [Some ''bbx'', Some ''bbx'']"
    by (simp add: station_rows_def)
  have k1: "''station'' \<in> set (map fst ?cc)" by simp
  have k2: "''station'' \<in> set (map fst (columns station_rows))" by (simp add: station_rows_def)
  have ok: "list_all (row_ok reg_bbx ?cc
               (filter (\<lambda>k. k \<notin> set (map fst (columns station_rows))) (map fst ?cc)))
              (zip [Some ''a.bbx'', Some ''b.bbx''] [Some ''bbx'', Some ''bbx''])"
    by code_simp
  have cells: "map (row_cell reg_bbx ?cc ''channel'')
                 (zip [Some ''a.bbx'', Some ''b.bbx''] [Some ''bbx'', Some ''bbx'']) = [None, None]"
    by code_simp
  have old: "map_of (columns station_rows) ''station'' = Some [Some ''old'', None]"
    by (simp add: station_rows_def)
  have new: "''channel'' \<in> set (map fst ?cc) \<and> ''channel'' \<notin> set (map fst (columns station_rows))"
    by (simp add: station_rows_def)
  from existing_column_kept[OF c1 c2 k1 k2 ok, of "[]"]
  obtain t' names' evs where r:
    "add_columns reg_bbx ?cc station_rows False [] = (Inr (t', names'), evs)"
    "map_of (columns t') ''station'' = map_of (columns station_rows) ''station''"
    "Warn ''station'' \<in> set evs"
    and rest: "\<forall>k \<in> set (map fst ?cc). k \<notin> set (map fst (columns station_rows)) \<longrightarrow>
        map_of (columns t') k = Some (map (row_cell reg_bbx ?cc k)
          (zip [Some ''a.bbx'', Some ''b.bbx''] [Some ''bbx'', Some ''bbx'']))"
    by blast
  from rest new have "map_of (columns t') ''channel'' = Some [None, None]"
    unfolding cells[symmetric] by blast
  with r old show ?thesis by auto
qed

subsection \<open>A file that cannot be opened\<close>

text \<open>
  C3, as the code has it. When the rows before a row have been processed and the file of
  that row cannot be opened (\<open>instantiate_format_cls\<close> raises \<open>e\<close>), \<open>add_columns\<close>
  raises \<open>e\<close>: no table is returned, no null is recorded, and the rows after it are not
  opened.
\<close>

theorem unopenable_file_raises:
  assumes "map_of (columns t) ''filename'' = Some fns"
      and "map_of (columns t) ''fileformat'' = Some fmts"
      and "zip fns fmts = pre @ (Some fn, Some fmt) # post"
      and "list_all (row_ok reg cc (col_info_keys cc t ow)) pre"
      and "map_of (formats reg) fmt = Some kc"
      and "instantiate_format_cls kc fn = Inl e"
  shows "add_columns reg cc t ow names =
     (Inl e, col_warnings cc t ow @ concat (map row_events pre))"
proof -
  have "process_row reg cc (col_info_keys cc t ow) (Some fn, Some fmt) = (Inl e, [])"
    using assms(5,6) by (simp add: process_row_def)
  from add_columns_raise[OF assms(1-4) this] show ?thesis by simp
qed

text \<open>The first of two files is gone.\<close>

theorem unopenable_file_raises_witness:
  "add_columns reg_bbx [(''station'', station_collector)] gone_rows False [] =
     (Inl (Raised ''IOError''), [])"
proof -
  let ?cc = "[(''station'', station_collector)]"
  have c1: "map_of (columns gone_rows) ''filename'' = Some [Some ''gone.bbx'', Some ''b.bbx'']"
    by (simp add: gone_rows_def)
  have c2: "map_of (columns gone_rows) ''fileformat'' = Some [Some ''bbx'', Some ''bbx'']"
    by (simp add: gone_rows_def)
  have z: "zip [Some ''gone.bbx'', Some ''b.bbx''] [Some ''bbx'', Some ''bbx''] =
      [] @ (Some ''gone.bbx'', Some ''bbx'') # [(Some ''b.bbx'', Some ''bbx'')]"
    by simp
  have f: "map_of (formats reg_bbx) ''bbx'' = Some bbx_format" by (simp add: reg_bbx_def)
  have i: "instantiate_format_cls bbx_format ''gone.bbx'' = Inl (Raised ''IOError'')"
    by (simp add: bbx_format_def)
  have w: "col_warnings ?cc gone_rows False = []"
    by (simp add: col_warnings_def gone_rows_def)
  from unopenable_file_raises[OF c1 c2 z _ f i, of ?cc False "[]"] w
  show ?thesis by simp
qed

text \<open>
  C3 as the spec states it fails on the table of \<open>gone.bbx\<close> and \<open>b.bbx\<close>: the
  exception of the first file leaves \<open>add_columns\<close>, and \<open>b.bbx\<close> is not opened, while
  the same call on two readable files returns the table.
\<close>

theorem missing_file_null_counterexample:
  "add_columns reg_bbx [(''station'', station_collector)] gone_rows False [] =
     (Inl (Raised ''IOError''), []) \<and>
   add_columns reg_bbx [(''station'', station_collector)] two_rows False [] =
     (Inr (\<lparr>columns = [(''filename'', [Some ''a.bbx'', Some ''b.bbx'']),
                       (''fileformat'', [Some ''bbx'', Some ''bbx'']),
                       (''station'', [Some ''LoFASM1'', Some ''LoFASM1''])], meta = []\<rparr>,
           [''station'']),
      [Open ''a.bbx'', Close ''a.bbx'', Open ''b.bbx'', Close ''b.bbx''])"
  by code_simp

subsection \<open>Closing the opened file\<close>

text \<open>
  C4, as the code has it. For a row that is reached and whose file opens: when the loop
  over the columns ends without an exception, the \<open>Close\<close> of the file follows its
  \<open>Open\<close> at once; when a collector raises an exception other than
  \<open>NotImplementedError\<close> (the only one \<open>collect_row\<close> lets through), the exception
  leaves \<open>add_columns\<close> and the log ends with the \<open>Open\<close>: the file is not closed.
\<close>

theorem handle_closed_unless_collector_raises:
  assumes "map_of (columns t) ''filename'' = Some fns"
      and "map_of (columns t) ''fileformat'' = Some fmts"
      and "zip fns fmts = pre @ (Some fn, Some fmt) # post"
      and "list_all (row_ok reg cc (col_info_keys cc t ow)) pre"
      and "map_of (formats reg) fmt = Some kc"
      and "instantiate_format_cls kc fn = Inr f_obj"
  shows "(\<forall>vs. collect_row cc fmt f_obj (col_info_keys cc t ow) = Inr vs \<longrightarrow>
            (\<exists>evs'. snd (add_columns reg cc t ow names) =
               col_warnings cc t ow @ concat (map row_events pre) @ [Open fn, Close fn] @ evs')) \<and>
         (\<forall>e. collect_row cc fmt f_obj (col_info_keys cc t ow) = Inl e \<longrightarrow>
            add_columns reg cc t ow names =
              (Inl e, col_warnings cc t ow @ concat (map row_events pre) @ [Open fn]))"
proof (intro conjI allI impI)
  fix vs
  assume "collect_row cc fmt f_obj (col_info_keys cc t ow) = Inr vs"
  then have "process_row reg cc (col_info_keys cc t ow) (Some fn, Some fmt) =
      (Inr vs, [Open fn, Close fn])"
    using assms(5,6) by (simp add: process_row_def)
  from rows_loop_events[OF assms(4) this, of post] obtain evs' where
    "snd (rows_loop reg cc (col_info_keys cc t ow) (zip fns fmts)) =
       concat (map row_events pre) @ [Open fn, Close fn] @ evs'"
    unfolding assms(3) by blast
  then show "\<exists>evs'. snd (add_columns reg cc t ow names) =
       col_warnings cc t ow @ concat (map row_events pre) @ [Open fn, Close fn] @ evs'"
    using assms(1,2)
    by (auto simp: add_columns_def Let_def split: prod.splits sum.splits)
next
  fix e
  assume "collect_row cc fmt f_obj (col_info_keys cc t ow) = Inl e"
  then have "process_row reg cc (col_info_keys cc t ow) (Some fn, Some fmt) = (Inl e, [Open fn])"
    using assms(5,6) by (simp add: process_row_def)
  from add_columns_raise[OF assms(1-4) this]
  show "add_columns reg cc t ow names =
     (Inl e, col_warnings cc t ow @ concat (map row_events pre) @ [Open fn])" .
qed

text \<open>The second collector fails on the first file.\<close>

theorem handle_closed_unless_collector_raises_witness:
  "add_columns reg_bbx [(''channel'', channel_collector), (''station'', failing_collector)]
     two_rows False [] = (Inl (Raised ''ValueError''), [Open ''a.bbx''])"
proof -
  let ?cc = "[(''channel'', channel_collector), (''station'', failing_collector)]"
  have c1: "map_of (columns two_rows) ''filename'' = Some [Some ''a.bbx'', Some ''b.bbx'']"
    by (simp add: two_rows_def)
  have c2: "map_of (columns two_rows) ''fileformat'' = Some [Some ''bbx'', Some ''bbx'']"
    by (simp add: two_rows_def)
  have z: "zip [Some ''a.bbx'', Some ''b.bbx''] [Some ''bbx'', Some ''bbx''] =
      [] @ (Some ''a.bbx'', Some ''bbx'') # [(Some ''b.bbx'', Some ''bbx'')]"
    by simp
  have f: "map_of (formats reg_bbx) ''bbx'' = Some bbx_format" by (simp add: reg_bbx_def)
  have i: "instantiate_format_cls bbx_format ''a.bbx'' = Inr ''a.bbx''"
    by (simp add: bbx_format_def)
  have w: "col_warnings ?cc two_rows False = []"
    by (simp add: col_warnings_def two_rows_def)
  have c: "collect_row ?cc ''bbx'' ''a.bbx'' (col_info_keys ?cc two_rows False) =
      Inl (Raised ''ValueError'')"
    by code_simp
  from handle_closed_unless_collector_raises[OF c1 c2 z _ f i, of ?cc False "[]"] c w
  show ?thesis by simp
qed

text \<open>
  C4 as the spec states it fails: a collector that raises \<open>ValueError\<close> on \<open>a.bbx\<close>
  ends \<open>add_columns\<close> with that exception, and the only event is the \<open>Open\<close> of the
  file.
\<close>

theorem handle_left_open_counterexample:
  "snd (add_columns reg_bbx [(''channel'', channel_collector), (''station'', failing_collector)]
     two_rows False []) = [Open ''a.bbx''] \<and>
   fst (add_columns reg_bbx [(''channel'', channel_collector), (''station'', failing_collector)]
     two_rows False []) = Inl (Raised ''ValueError'')"
  by code_simp

subsection \<open>The two branches of the constructor\<close>

lemma init_stored:
  assumes "isfile fs (catalogue_name fs reg base)"
      and "read_table fs (catalogue_name fs reg base) = Inr t"
      and "map_of (columns t) ''filename'' = Some fns"
  shows "init fs reg base add =
     (fst (merge_new_files reg (first_self fs reg base add) (scanned_map fs reg) t fns),
      name_warnings fs reg base @
      snd (merge_new_files reg (first_self fs reg base add) (scanned_map fs reg) t fns))"
  using assms
  by (simp add: init_def setup_info_table_def Let_def split_def first_self_def catalogue_name_def
      name_warnings_def scanned_map_def)

lemma init_stored_raise:
  assumes "isfile fs (catalogue_name fs reg base)"
      and "init fs reg base add = (Inr st, evs)"
  shows "\<exists>t fns. read_table fs (catalogue_name fs reg base) = Inr t \<and>
           map_of (columns t) ''filename'' = Some fns"
proof -
  have "fst (init fs reg base add) = Inr st" using assms(2) by simp
  then show ?thesis using assms(1)
    by (simp add: init_def setup_info_table_def Let_def split_def catalogue_name_def
         split: sum.splits option.splits)
qed

lemma init_fresh:
  assumes "\<not> isfile fs (catalogue_name fs reg base)"
  shows "init fs reg base add =
     (fst (build_table reg base (first_self fs reg base add) (scanned_map fs reg)
             (prune_dirs fs 0 (dict_get (check_file_format fs reg (listdir fs)) ''data_dir''))),
      name_warnings fs reg base @
      snd (build_table reg base (first_self fs reg base add) (scanned_map fs reg)
             (prune_dirs fs 0 (dict_get (check_file_format fs reg (listdir fs)) ''data_dir''))))"
  using assms
  by (simp add: init_def setup_info_table_def Let_def split_def first_self_def catalogue_name_def
      name_warnings_def scanned_map_def)

lemma name_warnings_no_open: "Open p \<notin> set (name_warnings fs reg base)"
  by (auto simp: name_warnings_def choose_info_file_def split: list.splits)

lemma merge_none:
  "uncatalogued fm fns = [] \<Longrightarrow>
   merge_new_files reg self fm t fns = (Inr (self\<lparr>info_table := t, new_files := []\<rparr>), [])"
  by (simp add: merge_new_files_def)

lemma merge_raise:
  "uncatalogued fm fns \<noteq> [] \<Longrightarrow>
   add_columns reg (get_col_collector reg (map fst (columns t)) [])
     (new_f_table (uncatalogued fm fns)) False (col_names self) = (Inl e, evs) \<Longrightarrow>
   merge_new_files reg self fm t fns = (Inl e, evs)"
  by (simp add: merge_new_files_def new_f_table_def Let_def)

lemma merge_stack_raise:
  "uncatalogued fm fns \<noteq> [] \<Longrightarrow>
   add_columns reg (get_col_collector reg (map fst (columns t)) [])
     (new_f_table (uncatalogued fm fns)) False (col_names self) = (Inr (nt, names), evs) \<Longrightarrow>
   merge_error reg t nt = Some e \<Longrightarrow>
   merge_new_files reg self fm t fns = (Inl e, evs)"
  by (simp add: merge_new_files_def new_f_table_def Let_def vstack_def)

lemma merge_some:
  "uncatalogued fm fns \<noteq> [] \<Longrightarrow>
   add_columns reg (get_col_collector reg (map fst (columns t)) [])
     (new_f_table (uncatalogued fm fns)) False (col_names self) = (Inr (nt, names), evs) \<Longrightarrow>
   merge_error reg t nt = None \<Longrightarrow>
   \<exists>st. merge_new_files reg self fm t fns = (Inr st, evs) \<and> table_update st \<and>
        columns (info_table st) = columns (stacked t nt) \<and>
        (meta (info_table st) = meta t \<or>
         meta (info_table st) = AList.update ''haschild'' (MBool True) (meta t))"
  by (simp add: merge_new_files_def new_f_table_def Let_def vstack_def stacked_def)

lemma build_raise:
  "add_columns reg (get_col_collector reg (col_names self) [])
     \<lparr>columns = [(''filename'', map (\<lambda>(f, tp). Some f) fm),
                 (''fileformat'', map (\<lambda>(f, tp). Some tp) fm)],
      meta = [(''name'', MStr (base @ ''_info_table'')), (''haschild'', MBool (length dd > 0))]\<rparr>
     False (col_names self) = (Inl e, evs) \<Longrightarrow>
   build_table reg base self fm dd = (Inl e, evs)"
  by (simp add: build_table_def Let_def)

lemma build_some:
  "add_columns reg (get_col_collector reg (col_names self) [])
     \<lparr>columns = [(''filename'', map (\<lambda>(f, tp). Some f) fm),
                 (''fileformat'', map (\<lambda>(f, tp). Some tp) fm)],
      meta = [(''name'', MStr (base @ ''_info_table'')), (''haschild'', MBool (length dd > 0))]\<rparr>
     False (col_names self) = (Inr (nt, names), evs) \<Longrightarrow>
   build_table reg base self fm dd =
     (Inr (self\<lparr>info_table := nt, col_names := names, table_update := True\<rparr>), evs)"
  by (simp add: build_table_def Let_def)

subsection \<open>Columns that \<open>add_columns\<close> and the stacking leave alone\<close>

lemma add_columns_shape:
  "add_columns reg cc t ow names = (Inr (t', names'), evs) \<Longrightarrow>
   \<exists>cols. t' = fold (\<lambda>(key, vals). set_column key vals) (zip (col_info_keys cc t ow) cols) t"
  by (auto simp: add_columns_def Let_def split: option.splits prod.splits sum.splits)

lemma add_columns_frame:
  assumes "add_columns reg cc t False names = (Inr (t', names'), evs)"
      and "k \<in> set (map fst (columns t))"
  shows "map_of (columns t') k = map_of (columns t) k"
proof -
  from add_columns_shape[OF assms(1)] obtain cols where
    t': "t' = fold (\<lambda>(key, vals). set_column key vals) (zip (col_info_keys cc t False) cols) t"
    by blast
  have "k \<notin> set (col_info_keys cc t False)"
    using assms(2) by (simp add: col_info_keys_def)
  then have "k \<notin> fst ` set (rev (zip (col_info_keys cc t False) cols))"
    by (auto dest: set_zip_leftD)
  then have "map_of (rev (zip (col_info_keys cc t False) cols)) k = None"
    by (simp add: map_of_eq_None_iff)
  then show ?thesis
    by (simp add: t' columns_fold_set map_add_def)
qed

lemma map_of_map_keyed:
  "map_of (map (\<lambda>(k, v). (k, f k v)) xs) k = map_option (f k) (map_of xs k)"
  by (induction xs) auto

lemma map_of_stacked_left:
  "map_of (columns t1) c = Some vs \<Longrightarrow>
   map_of (columns (stacked t1 t2)) c =
     Some (vs @ (case map_of (columns t2) c of Some ws \<Rightarrow> ws
                 | None \<Rightarrow> replicate (nrows t2) None))"
  by (simp add: stacked_def map_add_def map_of_map_keyed)

lemma uncatalogued_distinct:
  "distinct (map fst fm) \<Longrightarrow> distinct (map fst (uncatalogued fm fns))"
  by (simp add: uncatalogued_def distinct_map_filter)

lemma uncatalogued_fresh:
  "f \<in> set (map fst (uncatalogued fm fns)) \<Longrightarrow> Some f \<notin> set fns"
  by (auto simp: uncatalogued_def)

lemma distinct_scanned_map: "distinct (map fst (scanned_map fs reg))"
  by (simp add: scanned_map_def Let_def distinct_format_map)

lemma built_filenames:
  assumes "\<not> isfile fs (catalogue_name fs reg base)"
      and "init fs reg base add = (Inr st, evs)"
  shows "map_of (columns (info_table st)) ''filename'' =
           Some (map Some (map fst (scanned_map fs reg)))"
proof -
  let ?self = "first_self fs reg base add"
  let ?dd = "prune_dirs fs 0 (dict_get (check_file_format fs reg (listdir fs)) ''data_dir'')"
  let ?t0 = "\<lparr>columns = [(''filename'', map (\<lambda>(f, tp). Some f) (scanned_map fs reg)),
                 (''fileformat'', map (\<lambda>(f, tp). Some tp) (scanned_map fs reg))],
      meta = [(''name'', MStr (base @ ''_info_table'')), (''haschild'', MBool (length ?dd > 0))]\<rparr>"
  obtain r evs' where a: "add_columns reg (get_col_collector reg (col_names ?self) []) ?t0 False
      (col_names ?self) = (r, evs')"
    by (cases "add_columns reg (get_col_collector reg (col_names ?self) []) ?t0 False
      (col_names ?self)")
  have b: "fst (build_table reg base ?self (scanned_map fs reg) ?dd) = Inr st"
    using assms(2) unfolding init_fresh[OF assms(1)] by simp
  show ?thesis
  proof (cases r)
    case (Inl e)
    with a b show ?thesis by (simp add: build_raise)
  next
    case (Inr p)
    obtain nt names where p: "p = (nt, names)" by (cases p)
    from a Inr p have a': "add_columns reg (get_col_collector reg (col_names ?self) []) ?t0
        False (col_names ?self) = (Inr (nt, names), evs')" by simp
    from b have "info_table st = nt" unfolding build_some[OF a'] by auto
    moreover have "map_of (columns nt) ''filename'' = map_of (columns ?t0) ''filename''"
      by (rule add_columns_frame[OF a']) simp
    moreover have "map (\<lambda>(f, tp). Some f) (scanned_map fs reg) =
        map Some (map fst (scanned_map fs reg))"
      by (simp add: split_def)
    ultimately show ?thesis by simp
  qed
qed

lemma updated_filenames:
  assumes "isfile fs (catalogue_name fs reg base)"
      and "read_table fs (catalogue_name fs reg base) = Inr t"
      and "init fs reg base add = (Inr st, evs)"
  shows "\<exists>fns. map_of (columns t) ''filename'' = Some fns \<and>
           map_of (columns (info_table st)) ''filename'' =
             Some (fns @ map Some (map fst (uncatalogued (scanned_map fs reg) fns)))"
proof -
  from init_stored_raise[OF assms(1,3)] assms(2) obtain fns where
    fns: "map_of (columns t) ''filename'' = Some fns" by auto
  let ?self = "first_self fs reg base add"
  let ?new = "uncatalogued (scanned_map fs reg) fns"
  have b: "fst (merge_new_files reg ?self (scanned_map fs reg) t fns) = Inr st"
    using assms(3) unfolding init_stored[OF assms(1,2) fns] by simp
  have "map_of (columns (info_table st)) ''filename'' = Some (fns @ map Some (map fst ?new))"
  proof (cases "?new = []")
    case True
    with b fns show ?thesis by (auto simp: merge_none)
  next
    case False
    obtain r evs' where a: "add_columns reg (get_col_collector reg (map fst (columns t)) [])
        (new_f_table ?new) False (col_names ?self) = (r, evs')"
      by (cases "add_columns reg (get_col_collector reg (map fst (columns t)) [])
        (new_f_table ?new) False (col_names ?self)")
    show ?thesis
    proof (cases r)
      case (Inl e)
      with a b False show ?thesis by (simp add: merge_raise)
    next
      case (Inr p)
      obtain nt names where p: "p = (nt, names)" by (cases p)
      from a Inr p have a': "add_columns reg (get_col_collector reg (map fst (columns t)) [])
        (new_f_table ?new) False (col_names ?self) = (Inr (nt, names), evs')" by simp
      have mg: "merge_error reg t nt = None"
      proof (cases "merge_error reg t nt")
        case None
        then show ?thesis .
      next
        case (Some e)
        from merge_stack_raise[OF False a' Some] b show ?thesis by simp
      qed
      from merge_some[OF False a' mg] b have c: "columns (info_table st) = columns (stacked t nt)"
        by auto
      have "map_of (columns nt) ''filename'' = map_of (columns (new_f_table ?new)) ''filename''"
        by (rule add_columns_frame[OF a']) (simp add: new_f_table_def)
      then have "map_of (columns nt) ''filename'' = Some (map Some (map fst ?new))"
        by (simp add: new_f_table_def)
      then show ?thesis
        unfolding c by (simp add: map_of_stacked_left[OF fns])
    qed
  qed
  with fns show ?thesis by blast
qed

lemma distinct_map_Some: "distinct xs \<Longrightarrow> distinct (map Some xs)"
  by (simp add: distinct_map)

subsection \<open>No two rows with the same file name\<close>

text \<open>
  C8. Every table the manager produces, by building it from a scan or by loading a
  table it produced and merging the new files in, has a \<open>filename\<close> column without
  repetition. A table built takes its file names from the keys of a \<open>dict\<close>; an update
  appends keys of a \<open>dict\<close> that the stored column does not hold.
\<close>

theorem filenames_unique:
  "produced t \<Longrightarrow> \<exists>fns. map_of (columns t) ''filename'' = Some fns \<and> distinct fns"
proof (induction rule: produced.induct)
  case (built fs reg basename add_col_names st evs)
  have "distinct (map Some (map fst (scanned_map fs reg)))"
    by (rule distinct_map_Some) (rule distinct_scanned_map)
  with built_filenames[OF built] show ?case by simp
next
  case (updated tbl fs reg basename add_col_names st evs)
  from updated.IH obtain fns0 where
    f0: "map_of (columns tbl) ''filename'' = Some fns0" "distinct fns0" by blast
  from updated_filenames[OF updated.hyps(2,3,4)] f0 have
    f: "map_of (columns (info_table st)) ''filename'' =
          Some (fns0 @ map Some (map fst (uncatalogued (scanned_map fs reg) fns0)))"
    by auto
  have "distinct (map Some (map fst (uncatalogued (scanned_map fs reg) fns0)))"
    by (rule distinct_map_Some) (simp add: uncatalogued_distinct distinct_scanned_map)
  moreover have "set fns0 \<inter> set (map Some (map fst (uncatalogued (scanned_map fs reg) fns0))) = {}"
    using uncatalogued_fresh[of _ "scanned_map fs reg" fns0] by auto
  ultimately show ?case using f f0(2) by simp
qed

subsection \<open>One new file in a catalogued directory\<close>






















lemma result_tableD:
  "result_table r = Some X \<Longrightarrow> \<exists>st evs. r = (Inr st, evs) \<and> info_table st = X"
  by (cases r) (auto simp: result_table_def split: sum.splits)

text \<open>The table built for the directory with one data file is stored, a second data file
  joins the directory, and the constructor merges it in: the table of two rows is
  produced, by both rules.\<close>

theorem filenames_unique_witness:
  "produced two_row_catalogue \<and>
   (\<exists>fns. map_of (columns two_row_catalogue) ''filename'' = Some fns \<and> distinct fns \<and>
      length fns = 2)"
proof -
  have "result_table (init bbx_dir reg_bbx ''d'' []) = Some one_row_catalogue"
    by code_simp
  from result_tableD[OF this] obtain st evs where
    i: "init bbx_dir reg_bbx ''d'' [] = (Inr st, evs)" and t: "info_table st = one_row_catalogue"
    by blast
  have n: "\<not> isfile bbx_dir (catalogue_name bbx_dir reg_bbx ''d'')"
    by code_simp
  have p1: "produced one_row_catalogue"
    using produced.built[OF n i] t by simp
  have "result_table (init grown_dir reg_bbx ''d'' []) = Some two_row_catalogue"
    by code_simp
  from result_tableD[OF this] obtain st2 evs2 where
    i2: "init grown_dir reg_bbx ''d'' [] = (Inr st2, evs2)"
    and t2: "info_table st2 = two_row_catalogue"
    by blast
  have cat: "isfile grown_dir (catalogue_name grown_dir reg_bbx ''d'')"
    by code_simp
  have rd: "read_table grown_dir (catalogue_name grown_dir reg_bbx ''d'') = Inr one_row_catalogue"
    by code_simp
  have p2: "produced two_row_catalogue"
    using produced.updated[OF p1 cat rd i2] t2 by simp
  have c: "map_of (columns two_row_catalogue) ''filename'' = Some [Some ''a.bbx'', Some ''b.bbx'']"
    by (simp add: two_row_catalogue_def)
  from filenames_unique[OF p2] obtain fns where
    "map_of (columns two_row_catalogue) ''filename'' = Some fns" "distinct fns" by blast
  with c p2 show ?thesis by auto
qed



subsection \<open>A second construction after the table was built and stored\<close>

text \<open>
  Let the directory have no entry ending in \<open>.info\<close>, let the constructor have built
  the table, and let \<open>write_info_table\<close> have stored it. If the new catalogue file is
  taken by no registered format, the second constructor reads the stored table, finds no
  new file, returns the same table with \<open>table_update\<close> false, and \<open>write_info_table\<close>
  leaves the directory as it is.
\<close>

lemma check_loop_append:
  "check_loop fs fmts (xs @ ys) ff = check_loop fs fmts ys (check_loop fs fmts xs ff)"
  by (induction xs arbitrary: ff) (simp_all add: Let_def)

lemma check_loop_cong:
  "isdir fs' = isdir fs \<Longrightarrow> check_loop fs' fmts xs ff = check_loop fs fmts xs ff"
  by (induction xs arbitrary: ff) (simp_all add: Let_def)

lemma prune_dirs_cong:
  "sub_listdir fs' = sub_listdir fs \<Longrightarrow> prune_dirs fs' i ds = prune_dirs fs i ds"
proof (induction fs i ds rule: prune_dirs.induct)
  case (1 fs i ds)
  show ?case
    using 1 by (subst prune_dirs.simps, subst (2) prune_dirs.simps) simp
qed

lemma update_fresh: "k \<notin> fst ` set ff \<Longrightarrow> AList.update k v ff = ff @ [(k, v)]"
  by (induction ff) auto

lemma classify_none:
  "\<forall>(k, kc) \<in> set fmts. \<not> is_format kc fn \<Longrightarrow>
   \<exists>extra. classify fmts fn ff = ff @ extra \<and> (\<forall>(k, l) \<in> set extra. l = [])"
proof (induction fmts fn ff rule: classify.induct)
  case (1 fn ff)
  show ?case by simp
next
  case (2 k kc rest fn ff)
  define ff' where "ff' = (if k \<notin> set (map fst ff) then AList.update k [] ff else ff)"
  have nm: "\<not> is_format kc fn" and rest: "\<forall>(k, kc) \<in> set rest. \<not> is_format kc fn"
    using 2(2) by auto
  from 2(1)[OF ff'_def nm rest] obtain extra where
    e: "classify rest fn ff' = ff' @ extra" "\<forall>(k, l) \<in> set extra. l = []" by blast
  have "\<exists>e0. ff' = ff @ e0 \<and> (\<forall>(k, l) \<in> set e0. l = [])"
  proof (cases "k \<in> set (map fst ff)")
    case True
    then show ?thesis by (simp add: ff'_def)
  next
    case False
    then have "ff' = ff @ [(k, [])]" by (simp add: ff'_def update_fresh)
    then show ?thesis by simp
  qed
  then obtain e0 where e0: "ff' = ff @ e0" "\<forall>(k, l) \<in> set e0. l = []" by blast
  have "classify ((k, kc) # rest) fn ff = classify rest fn ff'"
    using nm by (simp add: ff'_def Let_def)
  then have "classify ((k, kc) # rest) fn ff = ff @ (e0 @ extra)"
    using e(1) e0(1) by simp
  moreover have "\<forall>(k, l) \<in> set (e0 @ extra). l = []" using e(2) e0(2) by auto
  ultimately show ?case by blast
qed

lemma filter_cats: "filter (\<lambda>(tp, flist). tp \<noteq> ''info'') (cats xs) = cats xs"
  by (induction xs) (auto simp: cats_def)

lemma format_map_cats: "get_format_map ff = get_format_map (cats ff)"
proof -
  have a: "concat (map snd (filter (\<lambda>(tp, flist). tp \<noteq> ''info'') xs)) =
           concat (map snd (cats xs))" for xs :: "(string \<times> string list) list"
    by (induction xs) (auto simp: cats_def)
  have b: "concat (map (\<lambda>(tp, flist). replicate (length flist) tp)
              (filter (\<lambda>(tp, flist). tp \<noteq> ''info'') xs)) =
           concat (map (\<lambda>(tp, flist). replicate (length flist) tp) (cats xs))"
    for xs :: "(string \<times> string list) list"
    by (induction xs) (auto simp: cats_def)
  show ?thesis
    unfolding get_format_map_def Let_def filter_cats a[of ff] b[of ff] ..
qed

lemma cats_append: "cats (xs @ ys) = cats xs @ cats ys"
  by (simp add: cats_def)

lemma cats_empty: "\<forall>(k, l) \<in> set extra. l = [] \<Longrightarrow> cats extra = []"
  by (auto simp: cats_def filter_empty_conv)

lemma update_append_left:
  "k \<in> fst ` set xs \<Longrightarrow> AList.update k v (xs @ ys) = AList.update k v xs @ ys"
  by (induction xs) auto

lemma cats_map_entry_info: "cats (AList.map_entry ''info'' g ff) = cats ff"
  by (induction ff) (auto simp: cats_def)

lemma cats_update_info_entry:
  "cats (AList.update ''data_dir'' v (AList.map_entry ''info'' g ff)) =
   cats (AList.update ''data_dir'' v ff)"
proof (induction ff)
  case Nil
  show ?case by simp
next
  case (Cons p ff)
  show ?case
  proof (cases "fst p = ''data_dir''")
    case True
    then show ?thesis
      using cats_map_entry_info[of g ff] by (simp add: cats_def)
  next
    case False
    with Cons show ?thesis by (cases p) (auto simp: cats_def)
  qed
qed

lemma keys_map_entry: "fst ` set (AList.map_entry k g ff) = fst ` set ff"
  by (rule AList.dom_map_entry)

lemma dict_get_append_left:
  "k \<in> fst ` set xs \<Longrightarrow> dict_get (xs @ ys) k = dict_get xs k"
proof -
  assume "k \<in> fst ` set xs"
  then obtain v where "map_of xs k = Some v"
    by (metis domD dom_map_of_conv_image_fst)
  then show ?thesis by (simp add: dict_get_def map_add_def)
qed

lemma dict_get_info_append:
  "''info'' \<in> fst ` set ff \<Longrightarrow>
   dict_get (dict_append ''info'' x ff) ''info'' = dict_get ff ''info'' @ [x]"
proof -
  assume "''info'' \<in> fst ` set ff"
  then obtain v where "map_of ff ''info'' = Some v"
    by (metis domD dom_map_of_conv_image_fst)
  then show ?thesis by (simp add: dict_get_def dict_append_def AList.map_of_map_entry)
qed

lemma dict_get_other_append:
  "dict_get (dict_append ''info'' x ff) ''data_dir'' = dict_get ff ''data_dir''"
  by (simp add: dict_get_def dict_append_def AList.map_of_map_entry)

lemma classify_keys: "fst ` set ff \<subseteq> fst ` set (classify fmts fn ff)"
proof (induction fmts fn ff rule: classify.induct)
  case (1 fn ff)
  show ?case by simp
next
  case (2 k kc rest fn ff)
  define ff' where "ff' = (if k \<notin> set (map fst ff) then AList.update k [] ff else ff)"
  have s: "fst ` set ff \<subseteq> fst ` set ff'"
    by (auto simp: ff'_def AList.dom_update)
  show ?case
  proof (cases "is_format kc fn")
    case True
    then have "classify ((k, kc) # rest) fn ff = dict_append k fn ff'"
      by (simp add: ff'_def Let_def)
    with s show ?thesis by (simp add: dict_append_def AList.dom_map_entry)
  next
    case False
    then have "classify ((k, kc) # rest) fn ff = classify rest fn ff'"
      by (simp add: ff'_def Let_def)
    with 2(1)[OF ff'_def False] s show ?thesis by auto
  qed
qed

lemma check_loop_keys: "fst ` set ff \<subseteq> fst ` set (check_loop fs fmts xs ff)"
proof (induction xs arbitrary: ff)
  case Nil
  show ?case by simp
next
  case (Cons x xs)
  define ff1 where "ff1 = (if endswith x ''.info'' then dict_append ''info'' x ff else ff)"
  define ff2 where "ff2 = (if isdir fs x then dict_append ''data_dir'' x ff1
                           else classify fmts x ff1)"
  have "fst ` set ff \<subseteq> fst ` set ff1"
    by (simp add: ff1_def dict_append_def AList.dom_map_entry)
  moreover have "fst ` set ff1 \<subseteq> fst ` set ff2"
    using classify_keys[of ff1 fmts x] by (simp add: ff2_def dict_append_def AList.dom_map_entry)
  moreover have "check_loop fs fmts (x # xs) ff = check_loop fs fmts xs ff2"
    by (simp add: ff1_def ff2_def Let_def)
  ultimately show ?case using Cons[of ff2] by auto
qed

lemma scan_keys:
  "''info'' \<in> fst ` set (check_file_format fs reg xs)"
  "''data_dir'' \<in> fst ` set (check_file_format fs reg xs)"
  using check_loop_keys[of "[(''data_dir'', []), (''info'', [])]" fs "formats reg" xs]
  by (auto simp: check_file_format_def)

lemma endswith_suffix: "endswith (b @ s) s"
  by (simp add: endswith_def)

lemma built_state:
  assumes "\<not> isfile fs (catalogue_name fs reg base)"
      and "init fs reg base add = (Inr st, evs)"
  shows "table_update st \<and> info_file_name st = catalogue_name fs reg base"
proof -
  let ?self = "first_self fs reg base add"
  let ?dd = "prune_dirs fs 0 (dict_get (check_file_format fs reg (listdir fs)) ''data_dir'')"
  let ?t0 = "\<lparr>columns = [(''filename'', map (\<lambda>(f, tp). Some f) (scanned_map fs reg)),
                 (''fileformat'', map (\<lambda>(f, tp). Some tp) (scanned_map fs reg))],
      meta = [(''name'', MStr (base @ ''_info_table'')), (''haschild'', MBool (length ?dd > 0))]\<rparr>"
  obtain r evs' where a: "add_columns reg (get_col_collector reg (col_names ?self) []) ?t0 False
      (col_names ?self) = (r, evs')"
    by (cases "add_columns reg (get_col_collector reg (col_names ?self) []) ?t0 False
      (col_names ?self)")
  have b: "fst (build_table reg base ?self (scanned_map fs reg) ?dd) = Inr st"
    using assms(2) unfolding init_fresh[OF assms(1)] by simp
  show ?thesis
  proof (cases r)
    case (Inl e)
    with a b show ?thesis by (simp add: build_raise)
  next
    case (Inr p)
    obtain nt names where p: "p = (nt, names)" by (cases p)
    from a Inr p have a': "add_columns reg (get_col_collector reg (col_names ?self) []) ?t0
        False (col_names ?self) = (Inr (nt, names), evs')" by simp
    from b have "table_update st \<and> info_file_name st = info_file_name ?self"
      unfolding build_some[OF a'] by auto
    then show ?thesis by (simp add: first_self_def)
  qed
qed

lemma uncatalogued_own_keys: "uncatalogued fm (map Some (map fst fm)) = []"
  by (force simp: uncatalogued_def filter_empty_conv)

lemma second_run_after_build:
  assumes noinfo: "dict_get (check_file_format fs reg (listdir fs)) ''info'' = []"
      and nof: "\<not> isfile fs (base @ ''.info'')"
      and first: "init fs reg base add = (Inr st, evs)"
      and nomatch: "\<forall>(k, kc) \<in> set (formats reg). \<not> is_format kc (base @ ''.info'')"
      and nodir: "\<not> isdir fs (base @ ''.info'')"
      and unlisted: "base @ ''.info'' \<notin> set (listdir fs)"
  shows "\<exists>st' evs'. init (write_info_table st fs) reg base add = (Inr st', evs') \<and>
           info_table st' = info_table st \<and> \<not> table_update st' \<and>
           write_info_table st' (write_info_table st fs) = write_info_table st fs"
proof -
  define name where "name = base @ ''.info''"
  define fls where "fls = check_file_format fs reg (listdir fs)"
  have cn: "catalogue_name fs reg base = name"
    by (simp add: catalogue_name_def noinfo choose_info_file_def name_def)
  have nof': "\<not> isfile fs (catalogue_name fs reg base)"
    using nof by (simp add: cn name_def)
  from built_state[OF nof' first] have upd: "table_update st" and nm: "info_file_name st = name"
    by (simp_all add: cn)
  define fs' where "fs' = store_table name (info_table st) fs"
  have w: "write_info_table st fs = fs'"
    by (simp add: write_info_table_def upd nm fs'_def)
  have l': "listdir fs' = listdir fs @ [name]" and d': "isdir fs' = isdir fs"
    and s': "sub_listdir fs' = sub_listdir fs" and f': "isfile fs' name"
    and r': "read_table fs' name = Inr (info_table st)"
    using unlisted by (simp_all add: fs'_def store_table_def name_def)
  have "check_file_format fs' reg (listdir fs') =
        check_loop fs' (formats reg) (listdir fs @ [name]) [(''data_dir'', []), (''info'', [])]"
    by (simp only: check_file_format_def l')
  also have "\<dots> =
        check_loop fs (formats reg) (listdir fs @ [name]) [(''data_dir'', []), (''info'', [])]"
    by (rule check_loop_cong[OF d'])
  also have "\<dots> = check_loop fs (formats reg) [name] fls"
    by (simp only: check_loop_append fls_def check_file_format_def)
  also have "\<dots> = classify (formats reg) name (dict_append ''info'' name fls)"
    using nodir by (simp add: Let_def name_def endswith_suffix)
  finally have scan: "check_file_format fs' reg (listdir fs') =
      classify (formats reg) name (dict_append ''info'' name fls)" .
  from classify_none[OF nomatch[folded name_def], of "dict_append ''info'' name fls"]
  obtain extra where ex: "classify (formats reg) name (dict_append ''info'' name fls) =
      dict_append ''info'' name fls @ extra" "\<forall>(k, l) \<in> set extra. l = []"
    by blast
  have ki: "''info'' \<in> fst ` set fls" and kd: "''data_dir'' \<in> fst ` set fls"
    unfolding fls_def by (rule scan_keys)+
  have ki': "''info'' \<in> fst ` set (dict_append ''info'' name fls)"
    and kd': "''data_dir'' \<in> fst ` set (dict_append ''info'' name fls)"
    using ki kd by (simp_all add: dict_append_def AList.dom_map_entry)
  have infos: "dict_get (check_file_format fs' reg (listdir fs')) ''info'' = [name]"
    unfolding scan ex(1) dict_get_append_left[OF ki'] dict_get_info_append[OF ki]
    using noinfo by (simp add: fls_def)
  have dd: "dict_get (check_file_format fs' reg (listdir fs')) ''data_dir'' =
      dict_get fls ''data_dir''"
    unfolding scan ex(1) dict_get_append_left[OF kd'] dict_get_other_append ..
  have cn': "catalogue_name fs' reg base = name"
    by (simp add: catalogue_name_def infos choose_info_file_def)
  define pr where "pr = prune_dirs fs 0 (dict_get fls ''data_dir'')"
  have dd2: "dict_get (dict_append ''info'' name fls @ extra) ''data_dir'' = dict_get fls ''data_dir''"
    unfolding dict_get_append_left[OF kd'] dict_get_other_append ..
  have c1: "cats (AList.update ''data_dir'' pr (dict_append ''info'' name fls @ extra)) =
        cats (AList.update ''data_dir'' pr (dict_append ''info'' name fls)) @ cats extra"
    by (simp only: update_append_left[OF kd'] cats_append)
  have c2: "cats extra = []" by (rule cats_empty[OF ex(2)])
  have c3: "cats (AList.update ''data_dir'' pr (dict_append ''info'' name fls)) =
        cats (AList.update ''data_dir'' pr fls)"
    unfolding dict_append_def by (rule cats_update_info_entry)
  have c: "cats (AList.update ''data_dir'' pr (dict_append ''info'' name fls @ extra)) =
        cats (AList.update ''data_dir'' pr fls)"
    by (simp only: c1 c2 c3 append_Nil2)
  have s1: "scanned_map fs' reg =
      get_format_map (AList.update ''data_dir'' pr (dict_append ''info'' name fls @ extra))"
    by (simp only: scanned_map_def Let_def scan ex(1) dd2 prune_dirs_cong[OF s'] pr_def)
  have s2: "scanned_map fs reg = get_format_map (AList.update ''data_dir'' pr fls)"
    by (simp only: scanned_map_def Let_def fls_def pr_def)
  have sm: "scanned_map fs' reg = scanned_map fs reg"
    unfolding s1 s2
    using format_map_cats[of "AList.update ''data_dir'' pr (dict_append ''info'' name fls @ extra)"]
      format_map_cats[of "AList.update ''data_dir'' pr fls"]
    by (simp only: c)
  have fcol: "map_of (columns (info_table st)) ''filename'' =
      Some (map Some (map fst (scanned_map fs reg)))"
    by (rule built_filenames[OF nof' first])
  have i: "init fs' reg base add =
     (fst (merge_new_files reg (first_self fs' reg base add) (scanned_map fs' reg)
             (info_table st) (map Some (map fst (scanned_map fs reg)))),
      name_warnings fs' reg base @
      snd (merge_new_files reg (first_self fs' reg base add) (scanned_map fs' reg)
             (info_table st) (map Some (map fst (scanned_map fs reg)))))"
    by (rule init_stored) (simp_all add: cn' f' r' fcol)
  have "init fs' reg base add =
     (Inr ((first_self fs' reg base add)\<lparr>info_table := info_table st, new_files := []\<rparr>),
      name_warnings fs' reg base)"
    unfolding i sm merge_none[OF uncatalogued_own_keys] by simp
  moreover have "\<not> table_update
      ((first_self fs' reg base add)\<lparr>info_table := info_table st, new_files := []\<rparr>)"
    by (simp add: first_self_def)
  ultimately show ?thesis
    unfolding w by (auto simp: write_info_table_def)
qed

subsection \<open>Constructing twice\<close>

text \<open>
  C2 at a directory with the one file \<open>a.dat\<close> and a registered format that takes every
  file. The constructor builds a table with one row; \<open>write_info_table\<close> stores it as
  \<open>d.info\<close>; the second constructor finds \<open>d.info\<close> in the listing, the format takes it
  too, and the table gets a row for the catalogue file: the second table differs from
  the first, and \<open>table_update\<close> is true.
\<close>

theorem second_run_adds_catalogue_row:
  "result_table (init dat_dir reg_any ''d'' []) =
     Some \<lparr>columns = [(''filename'', [Some ''a.dat'']), (''fileformat'', [Some ''any''])],
           meta = [(''name'', MStr ''d_info_table''), (''haschild'', MBool False)]\<rparr> \<and>
   listdir (persist (init dat_dir reg_any ''d'' []) dat_dir) = [''a.dat'', ''d.info''] \<and>
   result_table (init (persist (init dat_dir reg_any ''d'' []) dat_dir) reg_any ''d'' []) =
     Some \<lparr>columns = [(''filename'', [Some ''a.dat'', Some ''d.info'']),
                       (''fileformat'', [Some ''any'', Some ''any''])],
           meta = [(''name'', MStr ''d_info_table''), (''haschild'', MBool False)]\<rparr> \<and>
   result_update (init (persist (init dat_dir reg_any ''d'' []) dat_dir) reg_any ''d'' []) =
     Some True"
  by code_simp

end
